theory Spec2Isabelle
  imports Complex_Main
begin

section \<open>Numbers: Python floats\<close>

text \<open>
  Every count that reaches the validators from the tool layer is declared \<^verbatim>\<open>float\<close> in
  \<^verbatim>\<open>server.py\<close>, so \<^verbatim>\<open>+\<close>, \<^verbatim>\<open>-\<close>, \<^verbatim>\<open>!=\<close> and \<^verbatim>\<open>>\<close> in \<^verbatim>\<open>validators.py\<close> are the
  operations of IEEE 754 binary64 with rounding to nearest, ties to even. A finite float is
  modelled by the rational number it denotes, so that equality of models is equality of
  values (the two zeros compare equal in Python and are one value here); the infinities and
  NaN are values of their own. An integer default such as \<^verbatim>\<open>contested_rape: float = 0\<close>
  behaves in these operations exactly as the float of the same value.
\<close>

datatype f64 = Fin rat | PInf | NInf | NaN

text \<open>
  \<open>ilog2 r\<close> is the binary exponent of a non-zero rational: the integer \<open>e\<close> with
  \<open>2\<^sup>e \<le> \<bar>r\<bar> < 2\<^sup>e\<^sup>+\<^sup>1\<close>, found by halving or doubling.
\<close>

function ilog2_up :: "rat \<Rightarrow> int" where
  "ilog2_up r = (if r < 2 then 0 else ilog2_up (r / 2) + 1)"
  by pat_completeness auto
termination
proof (relation "measure (\<lambda>r. nat \<lfloor>r\<rfloor>)")
  show "wf (measure (\<lambda>r::rat. nat \<lfloor>r\<rfloor>))" by simp
next
  fix r :: rat
  assume "\<not> r < 2"
  then have "r / 2 \<le> r - 1" by simp
  then have "\<lfloor>r / 2\<rfloor> \<le> \<lfloor>r - 1\<rfloor>" by (rule floor_mono)
  moreover have "0 < \<lfloor>r\<rfloor>" using \<open>\<not> r < 2\<close> by simp
  ultimately show "(r / 2, r) \<in> measure (\<lambda>r. nat \<lfloor>r\<rfloor>)" by simp
qed

function ilog2_down :: "rat \<Rightarrow> int" where
  "ilog2_down r = (if r \<le> 0 \<or> 1 \<le> r then 0 else ilog2_down (2 * r) - 1)"
  by pat_completeness auto
termination
proof (relation "measure (\<lambda>r. nat \<lfloor>1 / r\<rfloor>)")
  show "wf (measure (\<lambda>r::rat. nat \<lfloor>1 / r\<rfloor>))" by simp
next
  fix r :: rat
  assume "\<not> (r \<le> 0 \<or> 1 \<le> r)"
  then have r: "0 < r" "r < 1" by auto
  then have "1 < 1 / r" by simp
  then have pos: "0 < \<lfloor>1 / r\<rfloor>" by simp
  have "\<lfloor>1 / (2 * r)\<rfloor> < \<lfloor>1 / r\<rfloor>"
  proof (cases "1 / r < 2")
    case True
    then have "1 / (2 * r) < 1" using r by (simp add: field_simps)
    moreover have "0 \<le> 1 / (2 * r)" using r by simp
    ultimately have "\<lfloor>1 / (2 * r)\<rfloor> = 0" by (simp add: floor_eq_iff)
    with pos show ?thesis by simp
  next
    case False
    then have "1 / (2 * r) \<le> 1 / r - 1" using r by (simp add: field_simps)
    then have "\<lfloor>1 / (2 * r)\<rfloor> \<le> \<lfloor>1 / r - 1\<rfloor>" by (rule floor_mono)
    then show ?thesis by simp
  qed
  with pos show "(2 * r, r) \<in> measure (\<lambda>r. nat \<lfloor>1 / r\<rfloor>)" by simp
qed

declare ilog2_up.simps [simp del] ilog2_down.simps [simp del]

definition ilog2 :: "rat \<Rightarrow> int" where
  "ilog2 r = (if 1 \<le> \<bar>r\<bar> then ilog2_up \<bar>r\<bar> else ilog2_down \<bar>r\<bar>)"

text \<open>Rounding a rational to the nearest integer, a tie going to the even neighbour.\<close>

definition round_half_even :: "rat \<Rightarrow> int" where
  "round_half_even x =
     (let f = \<lfloor>x\<rfloor>; d = x - of_int f
      in if d < 1 / 2 then f
         else if 1 / 2 < d then f + 1
         else if even f then f else f + 1)"

text \<open>
  \<open>rnd r\<close> is the binary64 result for the exact value \<open>r\<close>: the significand has 53 bits, so
  the spacing of floats around \<open>r\<close> is \<open>2\<^sup>e\<^sup>-\<^sup>5\<^sup>2\<close> (never below \<open>2\<^sup>-\<^sup>1\<^sup>0\<^sup>7\<^sup>4\<close>, the spacing of
  the subnormal numbers); \<open>r\<close> is rounded to a multiple of the spacing. The result overflows
  to an infinity when it reaches \<open>2\<^sup>1\<^sup>0\<^sup>2\<^sup>4\<close>: the exponent is above 1023, or it is 1023 and the
  rounded significand has carried to \<open>2\<^sup>5\<^sup>3\<close>.
\<close>

definition rnd :: "rat \<Rightarrow> f64" where
  "rnd r =
     (if r = 0 then Fin 0
      else
        let e = ilog2 r;
            q = 2 powi (max (e - 52) (- 1074));
            m = round_half_even (r / q)
        in if 1023 < e \<or> (e = 1023 \<and> \<bar>m\<bar> = 2 ^ 53)
           then (if 0 < r then PInf else NInf)
           else Fin (of_int m * q))"

text \<open>A decimal literal or JSON number denotes the float nearest to it.\<close>

definition py_float :: "rat \<Rightarrow> f64" where
  "py_float r = rnd r"

text \<open>Python's \<^verbatim>\<open>a + b\<close> and \<^verbatim>\<open>a - b\<close> on floats.\<close>

fun fadd :: "f64 \<Rightarrow> f64 \<Rightarrow> f64" where
  "fadd NaN _ = NaN"
| "fadd _ NaN = NaN"
| "fadd PInf NInf = NaN"
| "fadd NInf PInf = NaN"
| "fadd PInf _ = PInf"
| "fadd _ PInf = PInf"
| "fadd NInf _ = NInf"
| "fadd _ NInf = NInf"
| "fadd (Fin x) (Fin y) = rnd (x + y)"

fun fsub :: "f64 \<Rightarrow> f64 \<Rightarrow> f64" where
  "fsub NaN _ = NaN"
| "fsub _ NaN = NaN"
| "fsub PInf PInf = NaN"
| "fsub NInf NInf = NaN"
| "fsub PInf _ = PInf"
| "fsub _ NInf = PInf"
| "fsub NInf _ = NInf"
| "fsub _ PInf = NInf"
| "fsub (Fin x) (Fin y) = rnd (x - y)"

text \<open>
  Python's \<^verbatim>\<open>a != b\<close> and \<^verbatim>\<open>a > b\<close> on floats: every comparison with NaN is false,
  except \<^verbatim>\<open>!=\<close>, which is true.
\<close>

definition fne :: "f64 \<Rightarrow> f64 \<Rightarrow> bool" where
  "fne a b = (a = NaN \<or> b = NaN \<or> a \<noteq> b)"

fun fgt :: "f64 \<Rightarrow> f64 \<Rightarrow> bool" where
  "fgt NaN _ = False"
| "fgt _ NaN = False"
| "fgt _ PInf = False"
| "fgt PInf _ = True"
| "fgt NInf _ = False"
| "fgt _ NInf = True"
| "fgt (Fin x) (Fin y) = (y < x)"

text \<open>Python's \<^verbatim>\<open>a == b\<close> and \<^verbatim>\<open>a <= b\<close>, in which the claims below are stated.\<close>

definition feq :: "f64 \<Rightarrow> f64 \<Rightarrow> bool" where
  "feq a b = (a \<noteq> NaN \<and> b \<noteq> NaN \<and> a = b)"

fun fle :: "f64 \<Rightarrow> f64 \<Rightarrow> bool" where
  "fle NaN _ = False"
| "fle _ NaN = False"
| "fle _ PInf = True"
| "fle PInf _ = False"
| "fle NInf _ = True"
| "fle _ NInf = False"
| "fle (Fin x) (Fin y) = (x \<le> y)"

section \<open>Validation logic (validators.py)\<close>

datatype category = RAPE | POCSO

datatype breakdown = Pendency | Disposal

datatype subset_field = Contested | Disposal_5y | Pending_over_5y

datatype period_field = Month | Year

text \<open>
  The failures of a step. \<^verbatim>\<open>validators.py\<close> raises \<^verbatim>\<open>ValidationError\<close> with a message; each
  raise site is a constructor that carries the values the message prints:
  \<open>RangeError\<close> (\<^verbatim>\<open>validate_month_year\<close>), \<open>InvariantViolation\<close> ("Pending calculation
  mismatch"), \<open>SumMismatch\<close> (category, breakdown, the computed sum, the value it should
  equal) and \<open>SubsetViolation\<close> (field, category, its value, its bound). The others are the
  error returns of \<^verbatim>\<open>server.py\<close>: the court is not found, data already exist, a step is
  called before the step it needs (the step to complete first), and any other exception,
  which the tool reports with its message: one raised by a call of the database, or the
  \<^verbatim>\<open>KeyError\<close> of a dictionary that lacks a key.
\<close>

datatype error =
    RangeError period_field int
  | InvariantViolation
  | SumMismatch category breakdown f64 f64
  | SubsetViolation subset_field category f64 f64
  | EntityNotFound string
  | DuplicateEntry string int int
  | StepOrderViolation nat
  | StorageFailure string
  | KeyError string

text \<open>The dictionaries the validators return; field \<open>k_x\<close> is the key \<^verbatim>\<open>'x'\<close>.\<close>

record basic_metrics =
  k_balance_rape :: f64
  k_balance_pocso :: f64
  k_balance_total :: f64
  k_new_rape :: f64
  k_new_pocso :: f64
  k_new_total :: f64
  k_disposed_rape :: f64
  k_disposed_pocso :: f64
  k_disposed_total :: f64
  k_pending_rape :: f64
  k_pending_pocso :: f64
  k_pending_total :: f64

definition validate_basic_metrics ::
  "f64 \<Rightarrow> f64 \<Rightarrow> f64 \<Rightarrow> f64 \<Rightarrow> f64 \<Rightarrow> f64 \<Rightarrow> error + basic_metrics" where
  "validate_basic_metrics balance_rape balance_pocso new_rape new_pocso
       disposed_rape disposed_pocso =
     (let pending_rape = fsub (fadd balance_rape new_rape) disposed_rape;
          pending_pocso = fsub (fadd balance_pocso new_pocso) disposed_pocso;
          balance_total = fadd balance_rape balance_pocso;
          new_total = fadd new_rape new_pocso;
          disposed_total = fadd disposed_rape disposed_pocso;
          pending_total = fadd pending_rape pending_pocso
      in if fne pending_total (fsub (fadd balance_total new_total) disposed_total)
         then Inl InvariantViolation
         else Inr \<lparr>k_balance_rape = balance_rape,
                   k_balance_pocso = balance_pocso,
                   k_balance_total = balance_total,
                   k_new_rape = new_rape,
                   k_new_pocso = new_pocso,
                   k_new_total = new_total,
                   k_disposed_rape = disposed_rape,
                   k_disposed_pocso = disposed_pocso,
                   k_disposed_total = disposed_total,
                   k_pending_rape = pending_rape,
                   k_pending_pocso = pending_pocso,
                   k_pending_total = pending_total\<rparr>)"

record age_data =
  k_pending_less_2m_rape :: f64
  k_pending_less_2m_pocso :: f64
  k_pending_2_12m_rape :: f64
  k_pending_2_12m_pocso :: f64
  k_pending_12m_5y_rape :: f64
  k_pending_12m_5y_pocso :: f64
  k_pending_beyond_5y_rape :: f64
  k_pending_beyond_5y_pocso :: f64
  k_total_pendency_rape :: f64
  k_total_pendency_pocso :: f64
  k_disposal_within_2m_rape :: f64
  k_disposal_within_2m_pocso :: f64
  k_disposal_2_12m_rape :: f64
  k_disposal_2_12m_pocso :: f64
  k_disposal_beyond_12m_rape :: f64
  k_disposal_beyond_12m_pocso :: f64
  k_total_disposal_rape :: f64
  k_total_disposal_pocso :: f64

definition validate_age_breakdowns ::
  "f64 \<Rightarrow> f64 \<Rightarrow> f64 \<Rightarrow> f64 \<Rightarrow>
   f64 \<Rightarrow> f64 \<Rightarrow> f64 \<Rightarrow> f64 \<Rightarrow> f64 \<Rightarrow> f64 \<Rightarrow> f64 \<Rightarrow> f64 \<Rightarrow>
   f64 \<Rightarrow> f64 \<Rightarrow> f64 \<Rightarrow> f64 \<Rightarrow> f64 \<Rightarrow> f64 \<Rightarrow> error + age_data" where
  "validate_age_breakdowns pending_rape pending_pocso disposed_rape disposed_pocso
       pending_less_2m_rape pending_less_2m_pocso
       pending_2_12m_rape pending_2_12m_pocso
       pending_12m_5y_rape pending_12m_5y_pocso
       pending_beyond_5y_rape pending_beyond_5y_pocso
       disposal_within_2m_rape disposal_within_2m_pocso
       disposal_2_12m_rape disposal_2_12m_pocso
       disposal_beyond_12m_rape disposal_beyond_12m_pocso =
     (let total_pendency_rape =
            fadd (fadd (fadd pending_less_2m_rape pending_2_12m_rape)
                       pending_12m_5y_rape) pending_beyond_5y_rape;
          total_pendency_pocso =
            fadd (fadd (fadd pending_less_2m_pocso pending_2_12m_pocso)
                       pending_12m_5y_pocso) pending_beyond_5y_pocso
      in if fne total_pendency_rape pending_rape
         then Inl (SumMismatch RAPE Pendency total_pendency_rape pending_rape)
         else if fne total_pendency_pocso pending_pocso
         then Inl (SumMismatch POCSO Pendency total_pendency_pocso pending_pocso)
         else
           let total_disposal_rape =
                 fadd (fadd disposal_within_2m_rape disposal_2_12m_rape)
                      disposal_beyond_12m_rape;
               total_disposal_pocso =
                 fadd (fadd disposal_within_2m_pocso disposal_2_12m_pocso)
                      disposal_beyond_12m_pocso
           in if fne total_disposal_rape disposed_rape
              then Inl (SumMismatch RAPE Disposal total_disposal_rape disposed_rape)
              else if fne total_disposal_pocso disposed_pocso
              then Inl (SumMismatch POCSO Disposal total_disposal_pocso disposed_pocso)
              else Inr \<lparr>k_pending_less_2m_rape = pending_less_2m_rape,
                        k_pending_less_2m_pocso = pending_less_2m_pocso,
                        k_pending_2_12m_rape = pending_2_12m_rape,
                        k_pending_2_12m_pocso = pending_2_12m_pocso,
                        k_pending_12m_5y_rape = pending_12m_5y_rape,
                        k_pending_12m_5y_pocso = pending_12m_5y_pocso,
                        k_pending_beyond_5y_rape = pending_beyond_5y_rape,
                        k_pending_beyond_5y_pocso = pending_beyond_5y_pocso,
                        k_total_pendency_rape = total_pendency_rape,
                        k_total_pendency_pocso = total_pendency_pocso,
                        k_disposal_within_2m_rape = disposal_within_2m_rape,
                        k_disposal_within_2m_pocso = disposal_within_2m_pocso,
                        k_disposal_2_12m_rape = disposal_2_12m_rape,
                        k_disposal_2_12m_pocso = disposal_2_12m_pocso,
                        k_disposal_beyond_12m_rape = disposal_beyond_12m_rape,
                        k_disposal_beyond_12m_pocso = disposal_beyond_12m_pocso,
                        k_total_disposal_rape = total_disposal_rape,
                        k_total_disposal_pocso = total_disposal_pocso\<rparr>)"

record additional_metrics =
  k_contested_rape :: f64
  k_contested_pocso :: f64
  k_contested_total :: f64
  k_disposal_5y_rape :: f64
  k_disposal_5y_pocso :: f64
  k_disposal_5y_total :: f64
  k_pending_over_5y_rape :: f64
  k_pending_over_5y_pocso :: f64
  k_pending_over_5y_total :: f64
  k_convictions_rape :: f64
  k_convictions_pocso :: f64

definition validate_additional_metrics ::
  "f64 \<Rightarrow> f64 \<Rightarrow> f64 \<Rightarrow> f64 \<Rightarrow>
   f64 \<Rightarrow> f64 \<Rightarrow> f64 \<Rightarrow> f64 \<Rightarrow> f64 \<Rightarrow> f64 \<Rightarrow> f64 \<Rightarrow> f64 \<Rightarrow>
   error + additional_metrics" where
  "validate_additional_metrics pending_rape pending_pocso disposed_rape disposed_pocso
       contested_rape contested_pocso
       disposal_5y_rape disposal_5y_pocso
       pending_over_5y_rape pending_over_5y_pocso
       convictions_rape convictions_pocso =
     (if fgt contested_rape disposed_rape
      then Inl (SubsetViolation Contested RAPE contested_rape disposed_rape)
      else if fgt contested_pocso disposed_pocso
      then Inl (SubsetViolation Contested POCSO contested_pocso disposed_pocso)
      else if fgt disposal_5y_rape disposed_rape
      then Inl (SubsetViolation Disposal_5y RAPE disposal_5y_rape disposed_rape)
      else if fgt disposal_5y_pocso disposed_pocso
      then Inl (SubsetViolation Disposal_5y POCSO disposal_5y_pocso disposed_pocso)
      else if fgt pending_over_5y_rape pending_rape
      then Inl (SubsetViolation Pending_over_5y RAPE pending_over_5y_rape pending_rape)
      else if fgt pending_over_5y_pocso pending_pocso
      then Inl (SubsetViolation Pending_over_5y POCSO pending_over_5y_pocso pending_pocso)
      else
        let contested_total = fadd contested_rape contested_pocso;
            disposal_5y_total = fadd disposal_5y_rape disposal_5y_pocso;
            pending_over_5y_total = fadd pending_over_5y_rape pending_over_5y_pocso
        in Inr \<lparr>k_contested_rape = contested_rape,
                  k_contested_pocso = contested_pocso,
                  k_contested_total = contested_total,
                  k_disposal_5y_rape = disposal_5y_rape,
                  k_disposal_5y_pocso = disposal_5y_pocso,
                  k_disposal_5y_total = disposal_5y_total,
                  k_pending_over_5y_rape = pending_over_5y_rape,
                  k_pending_over_5y_pocso = pending_over_5y_pocso,
                  k_pending_over_5y_total = pending_over_5y_total,
                  k_convictions_rape = convictions_rape,
                  k_convictions_pocso = convictions_pocso\<rparr>)"

definition validate_month_year :: "int \<Rightarrow> int \<Rightarrow> error + bool" where
  "validate_month_year month year =
     (if \<not> (1 \<le> month \<and> month \<le> 12) then Inl (RangeError Month month)
      else if \<not> (2020 \<le> year \<and> year \<le> 2030) then Inl (RangeError Year year)
      else Inr True)"

section \<open>The persistence collaborator (db.py)\<close>

text \<open>
  The queries of \<^verbatim>\<open>db.py\<close> run against an external database. What a query answers, and
  whether it raises, is not decided by this program, so the answers are parameters of a
  step: \<open>Inl msg\<close> is an exception with message \<open>msg\<close> raised by the call, \<open>Inr v\<close> its
  value. \<open>get_court_by_name\<close> answers the court row or \<^verbatim>\<open>None\<close>; \<open>check_existing_data\<close>
  answers whether a row of \<^verbatim>\<open>court_monthly_data\<close> exists for the court, month and year;
  \<open>execute_insert\<close> is the \<^verbatim>\<open>INSERT\<close> statement sent by \<^verbatim>\<open>insert_court_monthly_data\<close>.
\<close>

record court =
  k_id :: int
  k_name :: string
  k_type :: string
  k_district_name :: string

text \<open>The values bound to the \<^verbatim>\<open>INSERT\<close> statement, after court, month and year.\<close>

record monthly_row =
  row_basic :: basic_metrics
  row_age :: age_data
  row_additional :: additional_metrics

type_synonym db_write = "int \<times> int \<times> int \<times> monthly_row"

record db_env =
  get_court_by_name :: "string \<Rightarrow> string + court option"
  check_existing_data :: "int \<Rightarrow> int \<Rightarrow> int \<Rightarrow> string + bool"
  execute_insert :: "int \<Rightarrow> int \<Rightarrow> int \<Rightarrow> monthly_row \<Rightarrow> string + unit"

section \<open>The staged entry workflow (server.py)\<close>

text \<open>
  An entry of \<^verbatim>\<open>partial_data_store\<close>. Step 1 stores the court, the period, the basic
  metrics and \<^verbatim>\<open>step1_complete\<close>; step 2 adds the keys of the age breakdown (\<open>age\<close> is
  \<open>None\<close> while they are absent) and \<^verbatim>\<open>step2_complete\<close>. A flag that is \<open>False\<close> is a key
  that is absent or false: \<^verbatim>\<open>.get('step2_complete')\<close> does not tell them apart. The key
  string \<^verbatim>\<open>f"{court['id']}_{month}_{year}"\<close> determines the three integers it is built
  from, and is modelled by the triple.
\<close>

record partial_data =
  k_court_id :: int
  k_court_name :: string
  k_month :: int
  k_year :: int
  basic :: basic_metrics
  k_step1_complete :: bool
  age :: "age_data option"
  k_step2_complete :: bool

type_synonym key = "int \<times> int \<times> int"

type_synonym partial_data_store = "key \<rightharpoonup> partial_data"

text \<open>
  What a tool returns: the values its success message reports, or the failure. The
  merged dictionary \<^verbatim>\<open>{**partial_data, **additional}\<close> of step 3 is the pair of its two
  parts, whose keys are disjoint.
\<close>

datatype response =
    Step1_complete basic_metrics
  | Step2_complete age_data
  | Data_entry_complete partial_data additional_metrics
  | Failure error

text \<open>
  \<^verbatim>\<open>insert_court_monthly_data\<close> reads the 41 keys of the merged dictionary (a missing key
  of the age breakdown raises \<^verbatim>\<open>KeyError\<close> before any statement is sent) and executes the
  \<^verbatim>\<open>INSERT\<close>. It returns its outcome and the statements it has sent.
\<close>

definition insert_court_monthly_data ::
  "db_env \<Rightarrow> int \<Rightarrow> int \<Rightarrow> int \<Rightarrow> partial_data \<Rightarrow> additional_metrics
     \<Rightarrow> (error + unit) \<times> db_write list" where
  "insert_court_monthly_data db court_id month year partial additional =
     (case age partial of
        None \<Rightarrow> (Inl (KeyError ''pending_less_2m_rape''), [])
      | Some age_data \<Rightarrow>
          let row = \<lparr>row_basic = basic partial, row_age = age_data,
                     row_additional = additional\<rparr>
          in (case execute_insert db court_id month year row of
                Inl msg \<Rightarrow> (Inl (StorageFailure msg), [(court_id, month, year, row)])
              | Inr _ \<Rightarrow> (Inr (), [(court_id, month, year, row)])))"

text \<open>
  Each tool takes the answers of the database and the store, and returns its response, the
  store after the call and the \<^verbatim>\<open>INSERT\<close> statements it has sent.
\<close>

definition insert_step1_basic_metrics ::
  "db_env \<Rightarrow> partial_data_store \<Rightarrow> string \<Rightarrow> int \<Rightarrow> int \<Rightarrow>
   f64 \<Rightarrow> f64 \<Rightarrow> f64 \<Rightarrow> f64 \<Rightarrow> f64 \<Rightarrow> f64 \<Rightarrow>
   response \<times> partial_data_store \<times> db_write list" where
  "insert_step1_basic_metrics db partial_data_store court_name month year
       balance_rape balance_pocso new_rape new_pocso disposed_rape disposed_pocso =
     (case validate_month_year month year of
        Inl e \<Rightarrow> (Failure e, partial_data_store, [])
      | Inr _ \<Rightarrow>
     (case get_court_by_name db court_name of
        Inl msg \<Rightarrow> (Failure (StorageFailure msg), partial_data_store, [])
      | Inr None \<Rightarrow> (Failure (EntityNotFound court_name), partial_data_store, [])
      | Inr (Some court) \<Rightarrow>
     (case check_existing_data db (k_id court) month year of
        Inl msg \<Rightarrow> (Failure (StorageFailure msg), partial_data_store, [])
      | Inr True \<Rightarrow>
          (Failure (DuplicateEntry court_name month year), partial_data_store, [])
      | Inr False \<Rightarrow>
     (case validate_basic_metrics balance_rape balance_pocso new_rape new_pocso
             disposed_rape disposed_pocso of
        Inl e \<Rightarrow> (Failure e, partial_data_store, [])
      | Inr calculated \<Rightarrow>
          (Step1_complete calculated,
           partial_data_store((k_id court, month, year) \<mapsto>
             \<lparr>k_court_id = k_id court,
              k_court_name = court_name,
              k_month = month,
              k_year = year,
              basic = calculated,
              k_step1_complete = True,
              age = None,
              k_step2_complete = False\<rparr>),
           [])))))"

definition insert_step2_age_breakdowns ::
  "db_env \<Rightarrow> partial_data_store \<Rightarrow> string \<Rightarrow> int \<Rightarrow> int \<Rightarrow>
   f64 \<Rightarrow> f64 \<Rightarrow> f64 \<Rightarrow> f64 \<Rightarrow> f64 \<Rightarrow> f64 \<Rightarrow> f64 \<Rightarrow> f64 \<Rightarrow>
   f64 \<Rightarrow> f64 \<Rightarrow> f64 \<Rightarrow> f64 \<Rightarrow> f64 \<Rightarrow> f64 \<Rightarrow>
   response \<times> partial_data_store \<times> db_write list" where
  "insert_step2_age_breakdowns db partial_data_store court_name month year
       pending_less_2m_rape pending_less_2m_pocso
       pending_2_12m_rape pending_2_12m_pocso
       pending_12m_5y_rape pending_12m_5y_pocso
       pending_beyond_5y_rape pending_beyond_5y_pocso
       disposal_within_2m_rape disposal_within_2m_pocso
       disposal_2_12m_rape disposal_2_12m_pocso
       disposal_beyond_12m_rape disposal_beyond_12m_pocso =
     (case get_court_by_name db court_name of
        Inl msg \<Rightarrow> (Failure (StorageFailure msg), partial_data_store, [])
      | Inr None \<Rightarrow> (Failure (EntityNotFound court_name), partial_data_store, [])
      | Inr (Some court) \<Rightarrow>
     (case partial_data_store (k_id court, month, year) of
        None \<Rightarrow> (Failure (StepOrderViolation 1), partial_data_store, [])
      | Some partial_data \<Rightarrow>
          if \<not> k_step1_complete partial_data
          then (Failure (StepOrderViolation 1), partial_data_store, [])
          else
     (case validate_age_breakdowns
             (k_pending_rape (basic partial_data))
             (k_pending_pocso (basic partial_data))
             (k_disposed_rape (basic partial_data))
             (k_disposed_pocso (basic partial_data))
             pending_less_2m_rape pending_less_2m_pocso
             pending_2_12m_rape pending_2_12m_pocso
             pending_12m_5y_rape pending_12m_5y_pocso
             pending_beyond_5y_rape pending_beyond_5y_pocso
             disposal_within_2m_rape disposal_within_2m_pocso
             disposal_2_12m_rape disposal_2_12m_pocso
             disposal_beyond_12m_rape disposal_beyond_12m_pocso of
        Inl e \<Rightarrow> (Failure e, partial_data_store, [])
      | Inr age_data \<Rightarrow>
          (Step2_complete age_data,
           partial_data_store((k_id court, month, year) \<mapsto>
             partial_data\<lparr>age := Some age_data, k_step2_complete := True\<rparr>),
           []))))"

definition insert_step3_additional_metrics ::
  "db_env \<Rightarrow> partial_data_store \<Rightarrow> string \<Rightarrow> int \<Rightarrow> int \<Rightarrow>
   f64 \<Rightarrow> f64 \<Rightarrow> f64 \<Rightarrow> f64 \<Rightarrow> f64 \<Rightarrow> f64 \<Rightarrow> f64 \<Rightarrow> f64 \<Rightarrow>
   response \<times> partial_data_store \<times> db_write list" where
  "insert_step3_additional_metrics db partial_data_store court_name month year
       contested_rape contested_pocso
       disposal_5y_rape disposal_5y_pocso
       pending_over_5y_rape pending_over_5y_pocso
       convictions_rape convictions_pocso =
     (case get_court_by_name db court_name of
        Inl msg \<Rightarrow> (Failure (StorageFailure msg), partial_data_store, [])
      | Inr None \<Rightarrow> (Failure (EntityNotFound court_name), partial_data_store, [])
      | Inr (Some court) \<Rightarrow>
     (case partial_data_store (k_id court, month, year) of
        None \<Rightarrow> (Failure (StepOrderViolation 1), partial_data_store, [])
      | Some partial_data \<Rightarrow>
          if \<not> k_step2_complete partial_data
          then (Failure (StepOrderViolation 2), partial_data_store, [])
          else
     (case validate_additional_metrics
             (k_pending_rape (basic partial_data))
             (k_pending_pocso (basic partial_data))
             (k_disposed_rape (basic partial_data))
             (k_disposed_pocso (basic partial_data))
             contested_rape contested_pocso
             disposal_5y_rape disposal_5y_pocso
             pending_over_5y_rape pending_over_5y_pocso
             convictions_rape convictions_pocso of
        Inl e \<Rightarrow> (Failure e, partial_data_store, [])
      | Inr additional \<Rightarrow>
     (case insert_court_monthly_data db (k_id court) month year partial_data additional of
        (Inl e, sent) \<Rightarrow> (Failure e, partial_data_store, sent)
      | (Inr _, sent) \<Rightarrow>
          (Data_entry_complete partial_data additional,
           partial_data_store((k_id court, month, year) := None),
           sent)))))"

text \<open>
  A call of one of the three tools of the staged entry with its arguments. The other
  tools of \<^verbatim>\<open>server.py\<close> (listing, querying, deleting committed data) never read or write
  \<^verbatim>\<open>partial_data_store\<close>.
\<close>

datatype call =
    Step1 string int int f64 f64 f64 f64 f64 f64
  | Step2 string int int f64 f64 f64 f64 f64 f64 f64 f64 f64 f64 f64 f64 f64 f64
  | Step3 string int int f64 f64 f64 f64 f64 f64 f64 f64

fun tool_call ::
  "db_env \<Rightarrow> partial_data_store \<Rightarrow> call \<Rightarrow> response \<times> partial_data_store \<times> db_write list" where
  "tool_call db s (Step1 court_name month year b1 b2 b3 b4 b5 b6) =
     insert_step1_basic_metrics db s court_name month year b1 b2 b3 b4 b5 b6"
| "tool_call db s (Step2 court_name month year a1 a2 a3 a4 a5 a6 a7 a8 a9 a10 a11 a12 a13 a14) =
     insert_step2_age_breakdowns db s court_name month year
       a1 a2 a3 a4 a5 a6 a7 a8 a9 a10 a11 a12 a13 a14"
| "tool_call db s (Step3 court_name month year c1 c2 c3 c4 c5 c6 c7 c8) =
     insert_step3_additional_metrics db s court_name month year c1 c2 c3 c4 c5 c6 c7 c8"

text \<open>
  The stores the workflow can be in: the empty store of a fresh process, and every store a
  tool call leaves, whatever the database answers and whatever the arguments.
\<close>

inductive reachable :: "partial_data_store \<Rightarrow> bool" where
  fresh: "reachable Map.empty"
| step: "reachable s \<Longrightarrow> tool_call db s c = (r, s', sent) \<Longrightarrow> reachable s'"

text \<open>
  The failures that come from a validator (\<^verbatim>\<open>ValidationError\<close>) or from the check of the
  completed steps.
\<close>

fun validation_or_order_failure :: "error \<Rightarrow> bool" where
  "validation_or_order_failure (RangeError f v) = True"
| "validation_or_order_failure InvariantViolation = True"
| "validation_or_order_failure (SumMismatch c b x y) = True"
| "validation_or_order_failure (SubsetViolation f c x y) = True"
| "validation_or_order_failure (StepOrderViolation n) = True"
| "validation_or_order_failure (EntityNotFound n) = False"
| "validation_or_order_failure (DuplicateEntry n m y) = False"
| "validation_or_order_failure (StorageFailure m) = False"
| "validation_or_order_failure (KeyError k) = False"

section \<open>The example of example.py\<close>

text \<open>
  The court, the figures and the stores of the worked example in \<^verbatim>\<open>example.py\<close>
  (FTSC Attingal, January 2025), and three databases: one with no data for the court yet,
  one that already holds its data, and one whose \<^verbatim>\<open>INSERT\<close> fails.
\<close>

definition court_attingal :: court where
  "court_attingal =
     \<lparr>k_id = 1, k_name = ''FTSC Attingal'', k_type = ''FTSC'',
      k_district_name = ''Thiruvananthapuram''\<rparr>"

definition courts_example :: "string \<Rightarrow> string + court option" where
  "courts_example court_name =
     (if court_name = ''FTSC Attingal'' then Inr (Some court_attingal) else Inr None)"

definition db_empty :: db_env where
  "db_empty =
     \<lparr>get_court_by_name = courts_example,
      check_existing_data = (\<lambda>court_id month year. Inr False),
      execute_insert = (\<lambda>court_id month year row. Inr ())\<rparr>"

definition db_committed :: db_env where
  "db_committed =
     \<lparr>get_court_by_name = courts_example,
      check_existing_data = (\<lambda>court_id month year. Inr True),
      execute_insert = (\<lambda>court_id month year row. Inl ''duplicate key value'')\<rparr>"

definition db_failing :: db_env where
  "db_failing =
     \<lparr>get_court_by_name = courts_example,
      check_existing_data = (\<lambda>court_id month year. Inr False),
      execute_insert = (\<lambda>court_id month year row. Inl ''connection is closed'')\<rparr>"

definition basic_example :: basic_metrics where
  "basic_example =
     \<lparr>k_balance_rape = Fin 50, k_balance_pocso = Fin 30, k_balance_total = Fin 80,
      k_new_rape = Fin 5, k_new_pocso = Fin 3, k_new_total = Fin 8,
      k_disposed_rape = Fin 4, k_disposed_pocso = Fin 2, k_disposed_total = Fin 6,
      k_pending_rape = Fin 51, k_pending_pocso = Fin 31, k_pending_total = Fin 82\<rparr>"

definition age_example :: age_data where
  "age_example =
     \<lparr>k_pending_less_2m_rape = Fin 10, k_pending_less_2m_pocso = Fin 5,
      k_pending_2_12m_rape = Fin 15, k_pending_2_12m_pocso = Fin 10,
      k_pending_12m_5y_rape = Fin 20, k_pending_12m_5y_pocso = Fin 12,
      k_pending_beyond_5y_rape = Fin 6, k_pending_beyond_5y_pocso = Fin 4,
      k_total_pendency_rape = Fin 51, k_total_pendency_pocso = Fin 31,
      k_disposal_within_2m_rape = Fin 1, k_disposal_within_2m_pocso = Fin 1,
      k_disposal_2_12m_rape = Fin 2, k_disposal_2_12m_pocso = Fin 1,
      k_disposal_beyond_12m_rape = Fin 1, k_disposal_beyond_12m_pocso = Fin 0,
      k_total_disposal_rape = Fin 4, k_total_disposal_pocso = Fin 2\<rparr>"

definition additional_example :: additional_metrics where
  "additional_example =
     \<lparr>k_contested_rape = Fin 3, k_contested_pocso = Fin 2, k_contested_total = Fin 5,
      k_disposal_5y_rape = Fin 3, k_disposal_5y_pocso = Fin 2, k_disposal_5y_total = Fin 5,
      k_pending_over_5y_rape = Fin 6, k_pending_over_5y_pocso = Fin 4,
      k_pending_over_5y_total = Fin 10,
      k_convictions_rape = Fin 2, k_convictions_pocso = Fin 1\<rparr>"

definition partial_after_step1 :: partial_data where
  "partial_after_step1 =
     \<lparr>k_court_id = 1, k_court_name = ''FTSC Attingal'', k_month = 1, k_year = 2025,
      basic = basic_example, k_step1_complete = True,
      age = None, k_step2_complete = False\<rparr>"

definition partial_after_step2 :: partial_data where
  "partial_after_step2 =
     \<lparr>k_court_id = 1, k_court_name = ''FTSC Attingal'', k_month = 1, k_year = 2025,
      basic = basic_example, k_step1_complete = True,
      age = Some age_example, k_step2_complete = True\<rparr>"

definition store_after_step1 :: partial_data_store where
  "store_after_step1 = [(1, 1, 2025) \<mapsto> partial_after_step1]"

definition store_after_step2 :: partial_data_store where
  "store_after_step2 = [(1, 1, 2025) \<mapsto> partial_after_step2]"

definition row_example :: monthly_row where
  "row_example =
     \<lparr>row_basic = basic_example, row_age = age_example,
      row_additional = additional_example\<rparr>"

section \<open>Properties of the float model\<close>

lemma ilog2_up_bounds:
  "1 \<le> r \<Longrightarrow> 0 \<le> ilog2_up r \<and> 2 powi (ilog2_up r) \<le> r \<and> r < 2 powi (ilog2_up r + 1)"
proof (induction r rule: ilog2_up.induct)
  case (1 r)
  show ?case
  proof (cases "r < 2")
    case True
    then have "ilog2_up r = 0" by (subst ilog2_up.simps) simp
    with True "1.prems" show ?thesis by simp
  next
    case False
    then have "1 \<le> r / 2" by simp
    with "1.IH" False have IH: "0 \<le> ilog2_up (r / 2)"
      "2 powi (ilog2_up (r / 2)) \<le> r / 2" "r / 2 < 2 powi (ilog2_up (r / 2) + 1)"
      by auto
    have eq: "ilog2_up r = ilog2_up (r / 2) + 1" using False by (subst ilog2_up.simps) simp
    show ?thesis
      using IH unfolding eq
      by (auto simp: power_int_add)
  qed
qed

lemma ilog2_down_bounds:
  "0 < r \<Longrightarrow> r < 1 \<Longrightarrow>
     ilog2_down r < 0 \<and> 2 powi (ilog2_down r) \<le> r \<and> r < 2 powi (ilog2_down r + 1)"
proof (induction r rule: ilog2_down.induct)
  case (1 r)
  have eq: "ilog2_down r = ilog2_down (2 * r) - 1"
    using "1.prems" by (subst ilog2_down.simps) simp
  show ?case
  proof (cases "2 * r < 1")
    case True
    with "1.IH" "1.prems" have IH: "ilog2_down (2 * r) < 0"
      "2 powi (ilog2_down (2 * r)) \<le> 2 * r" "2 * r < 2 powi (ilog2_down (2 * r) + 1)"
      by auto
    show ?thesis
      using IH unfolding eq
      by (auto simp: power_int_diff power_int_add)
  next
    case False
    then have z: "ilog2_down (2 * r) = 0" by (subst ilog2_down.simps) simp
    show ?thesis using False "1.prems" unfolding eq z by (simp add: power_int_minus)
  qed
qed

lemma ilog2_bounds:
  "r \<noteq> 0 \<Longrightarrow> 2 powi (ilog2 r) \<le> \<bar>r\<bar> \<and> \<bar>r\<bar> < 2 powi (ilog2 r + 1)"
  using ilog2_up_bounds [of "\<bar>r\<bar>"] ilog2_down_bounds [of "\<bar>r\<bar>"]
  by (auto simp: ilog2_def)

text \<open>
  \<open>round_half_even\<close> returns a nearest integer, the even one of two, and is symmetric.
\<close>

lemma round_half_even_nearest: "\<bar>x - of_int (round_half_even x)\<bar> \<le> 1 / 2"
proof -
  define d where "d = x - of_int \<lfloor>x\<rfloor>"
  have d: "0 \<le> d" "d < 1" unfolding d_def by linarith+
  have x: "x = of_int \<lfloor>x\<rfloor> + d" by (simp add: d_def)
  consider "d < 1 / 2" | "1 / 2 < d" | "d = 1 / 2" by linarith
  then show ?thesis
  proof cases
    case 1
    then have "round_half_even x = \<lfloor>x\<rfloor>"
      by (simp add: round_half_even_def Let_def d_def)
    with 1 d show ?thesis by (simp add: d_def [symmetric])
  next
    case 2
    then have "round_half_even x = \<lfloor>x\<rfloor> + 1"
      by (simp add: round_half_even_def Let_def d_def)
    moreover have "x - of_int (\<lfloor>x\<rfloor> + 1) = d - 1" by (simp add: d_def)
    ultimately show ?thesis using 2 d by simp
  next
    case 3
    then have "round_half_even x = \<lfloor>x\<rfloor> \<or> round_half_even x = \<lfloor>x\<rfloor> + 1"
      by (simp add: round_half_even_def Let_def d_def)
    moreover have "x - of_int (\<lfloor>x\<rfloor> + 1) = d - 1" by (simp add: d_def)
    moreover have "x - of_int \<lfloor>x\<rfloor> = d" by (simp add: d_def)
    ultimately show ?thesis using 3 by auto
  qed
qed

lemma round_half_even_tie:
  "x - of_int \<lfloor>x\<rfloor> = 1 / 2 \<Longrightarrow> even (round_half_even x)"
  by (auto simp: round_half_even_def Let_def)

lemma round_half_even_uminus: "round_half_even (- x) = - round_half_even x"
proof (cases "x = of_int \<lfloor>x\<rfloor>")
  case True
  then obtain z where "x = of_int z" by blast
  then show ?thesis
    by (simp add: round_half_even_def flip: of_int_minus)
next
  case False
  then have fl: "\<lfloor>- x\<rfloor> = - \<lfloor>x\<rfloor> - 1"
    by (simp add: floor_minus ceiling_altdef)
  define d where "d = x - of_int \<lfloor>x\<rfloor>"
  have d: "0 < d" "d < 1"
    using False unfolding d_def by (linarith, linarith)
  have x: "x = of_int \<lfloor>x\<rfloor> + d" by (simp add: d_def)
  have m: "- x - of_int (- \<lfloor>x\<rfloor> - 1) = 1 - d" by (simp add: d_def)
  show ?thesis
    unfolding round_half_even_def Let_def fl m d_def [symmetric]
    using d by auto
qed

lemma round_half_even_of_int: "round_half_even (of_int z) = z"
  by (simp add: round_half_even_def)

lemma rnd_of_int:
  fixes n :: int
  assumes "\<bar>n\<bar> < 2 ^ 53"
  shows "rnd (of_int n) = Fin (of_int n)"
proof (cases "n = 0")
  case True
  then show ?thesis by (simp add: rnd_def)
next
  case False
  define r :: rat where "r = of_int n"
  define e where "e = ilog2 r"
  have r0: "r \<noteq> 0" using False by (simp add: r_def)
  have r1: "1 \<le> \<bar>r\<bar>"
  proof -
    have "1 \<le> \<bar>n\<bar>" using False by simp
    then have "(of_int 1 :: rat) \<le> of_int \<bar>n\<bar>" by (simp only: of_int_le_iff)
    then show ?thesis by (simp add: r_def)
  qed
  have rlt: "\<bar>r\<bar> < 2 ^ 53"
  proof -
    have "(of_int \<bar>n\<bar> :: rat) < of_int (2 ^ 53)" using assms by (simp only: of_int_less_iff)
    then show ?thesis by (simp add: r_def)
  qed
  have b: "2 powi e \<le> \<bar>r\<bar>" "\<bar>r\<bar> < 2 powi (e + 1)"
    using ilog2_bounds [OF r0] by (simp_all add: e_def)
  have e0: "0 \<le> e"
  proof (rule ccontr)
    assume "\<not> 0 \<le> e"
    then have "e + 1 \<le> 0" by simp
    then have "(2::rat) powi (e + 1) \<le> 2 powi 0" by (intro power_int_increasing) simp_all
    with b(2) r1 show False by simp
  qed
  have e52: "e \<le> 52"
  proof (rule ccontr)
    assume "\<not> e \<le> 52"
    then have "53 \<le> e" by simp
    then have "(2::rat) powi 53 \<le> 2 powi e" by (intro power_int_increasing) simp_all
    with b(1) rlt show False by simp
  qed
  define j where "j = nat (52 - e)"
  have k: "max (e - 52) (- 1074) = - int j" using e0 e52 by (simp add: j_def)
  have q: "(2::rat) powi (- int j) = 1 / 2 ^ j" by (simp add: power_int_minus field_simps)
  have m: "r / (1 / 2 ^ j) = of_int (n * 2 ^ j)" by (simp add: r_def)
  have ov: "\<not> (1023 < e \<or> (e = 1023 \<and> \<bar>round_half_even (r / (1 / 2 ^ j))\<bar> = 2 ^ 53))"
    using e52 by simp
  have "rnd r = Fin (of_int (round_half_even (r / (1 / 2 ^ j))) * (1 / 2 ^ j))"
    using r0 ov unfolding rnd_def Let_def e_def [symmetric] k q by simp
  also have "\<dots> = Fin r"
    unfolding m round_half_even_of_int by (simp add: r_def)
  finally show ?thesis by (simp add: r_def)
qed

text \<open>
  The result of \<open>rnd\<close>, when finite, is a multiple of the spacing with a significand of
  at most 53 bits, and no further from the exact value than half the spacing.
\<close>

lemma rnd_nearest:
  assumes "r \<noteq> 0" and "rnd r = Fin v"
  defines "q \<equiv> 2 powi (max (ilog2 r - 52) (- 1074))"
  shows "\<exists>m. v = of_int m * q \<and> \<bar>m\<bar> \<le> 2 ^ 53 \<and> \<bar>v - r\<bar> \<le> q / 2"
proof -
  define m where "m = round_half_even (r / q)"
  have q0: "0 < q" by (simp add: q_def)
  from assms(1,2) have v: "v = of_int m * q"
    by (simp add: rnd_def Let_def m_def q_def split: if_splits)
  have near: "\<bar>r / q - of_int m\<bar> \<le> 1 / 2"
    unfolding m_def by (rule round_half_even_nearest)
  have "\<bar>v - r\<bar> = \<bar>r / q - of_int m\<bar> * q"
  proof -
    have "v - r = - (r / q - of_int m) * q" using q0 by (simp add: v field_simps)
    then show ?thesis using q0 by (simp add: abs_mult)
  qed
  with near q0 have err: "\<bar>v - r\<bar> \<le> q / 2"
    by (metis mult.commute mult_le_cancel_left_pos times_divide_eq_left mult_1)
  have "2 powi (ilog2 r - 52) \<le> q"
    unfolding q_def by (intro power_int_increasing) simp_all
  then have "2 powi (ilog2 r + 1) \<le> 2 ^ 53 * q"
  proof -
    have "(2::rat) powi (ilog2 r + 1) = 2 ^ 53 * 2 powi (ilog2 r - 52)"
      by (simp add: power_int_diff power_int_add)
    with \<open>2 powi (ilog2 r - 52) \<le> q\<close> show ?thesis by simp
  qed
  with ilog2_bounds [OF assms(1)] have "\<bar>r\<bar> < 2 ^ 53 * q" by simp
  then have "\<bar>r / q\<bar> < 2 ^ 53" using q0 by (simp add: field_simps abs_mult)
  with near have "\<bar>(of_int m :: rat)\<bar> < 2 ^ 53 + 1" by linarith
  then have "(of_int \<bar>m\<bar> :: rat) < of_int (2 ^ 53 + 1)" by simp
  then have "\<bar>m\<bar> < 2 ^ 53 + 1" by (simp only: of_int_less_iff)
  then have "\<bar>m\<bar> \<le> 2 ^ 53" by simp
  with v err show ?thesis by blast
qed

text \<open>
  On whole numbers below \<open>2\<^sup>5\<^sup>3\<close> the arithmetic is exact, as long as the result stays
  below \<open>2\<^sup>5\<^sup>3\<close> too.
\<close>

lemma rnd_0 [simp]: "rnd 0 = Fin 0"
  by (simp add: rnd_def)

lemma rnd_1 [simp]: "rnd 1 = Fin 1"
  using rnd_of_int [of 1] by simp

lemma rnd_numeral [simp]:
  "numeral k < (2::int) ^ 53 \<Longrightarrow> rnd (numeral k) = Fin (numeral k)"
  using rnd_of_int [of "numeral k"] by simp

lemma rnd_neg_numeral [simp]:
  "numeral k < (2::int) ^ 53 \<Longrightarrow> rnd (- numeral k) = Fin (- numeral k)"
  using rnd_of_int [of "- numeral k"] by simp

lemma fadd_of_int:
  "\<bar>a + b\<bar> < 2 ^ 53 \<Longrightarrow> fadd (Fin (of_int a)) (Fin (of_int b)) = Fin (of_int (a + b))"
  using rnd_of_int [of "a + b"] by simp

lemma fsub_of_int:
  "\<bar>a - b\<bar> < 2 ^ 53 \<Longrightarrow> fsub (Fin (of_int a)) (Fin (of_int b)) = Fin (of_int (a - b))"
  using rnd_of_int [of "a - b"] by simp

text \<open>The comparisons, one in terms of the other.\<close>

lemma fne_iff_not_feq: "fne a b \<longleftrightarrow> \<not> feq a b"
  by (auto simp: fne_def feq_def)

lemma fle_not_fgt: "fle a b \<Longrightarrow> \<not> fgt a b"
  by (induction a b rule: fgt.induct) auto

text \<open>
  Three values the model must give, and gives: the float written \<^verbatim>\<open>0.1\<close>, the sum
  \<^verbatim>\<open>0.1 + 0.2\<close>, which is not the float written \<^verbatim>\<open>0.3\<close> but the next one above it
  (\<^verbatim>\<open>0.30000000000000004\<close>), and \<open>2\<^sup>5\<^sup>3 + 1\<close>, which rounds back to \<open>2\<^sup>5\<^sup>3\<close>.
\<close>

lemma tenth_is_rounded: "py_float (1 / 10) = Fin (3602879701896397 / 36028797018963968)"
  by code_simp

lemma tenth_plus_fifth:
  "fadd (py_float (1 / 10)) (py_float (2 / 10)) = Fin (1351079888211149 / 4503599627370496)"
  by code_simp

lemma three_tenths: "py_float (3 / 10) = Fin (5404319552844595 / 18014398509481984)"
  by code_simp

lemma two_to_53_plus_one: "fadd (Fin (2 ^ 53)) (Fin 1) = Fin (2 ^ 53)"
  by code_simp

section \<open>The basic metrics of whole numbers\<close>

text \<open>
  On whole-number counts up to \<open>2\<^sup>5\<^sup>0\<close> no sum of \<^verbatim>\<open>validate_basic_metrics\<close> is rounded:
  the function returns the exact totals and pending counts, and its check of the pending
  total passes.
\<close>

lemma validate_basic_metrics_whole_numbers:
  fixes balance_rape balance_pocso new_rape new_pocso disposed_rape disposed_pocso :: int
  assumes "0 \<le> balance_rape" "balance_rape \<le> 2 ^ 50"
    and "0 \<le> balance_pocso" "balance_pocso \<le> 2 ^ 50"
    and "0 \<le> new_rape" "new_rape \<le> 2 ^ 50"
    and "0 \<le> new_pocso" "new_pocso \<le> 2 ^ 50"
    and "0 \<le> disposed_rape" "disposed_rape \<le> 2 ^ 50"
    and "0 \<le> disposed_pocso" "disposed_pocso \<le> 2 ^ 50"
  shows "validate_basic_metrics
           (Fin (of_int balance_rape)) (Fin (of_int balance_pocso))
           (Fin (of_int new_rape)) (Fin (of_int new_pocso))
           (Fin (of_int disposed_rape)) (Fin (of_int disposed_pocso))
         = Inr \<lparr>k_balance_rape = Fin (of_int balance_rape),
                 k_balance_pocso = Fin (of_int balance_pocso),
                 k_balance_total = Fin (of_int (balance_rape + balance_pocso)),
                 k_new_rape = Fin (of_int new_rape),
                 k_new_pocso = Fin (of_int new_pocso),
                 k_new_total = Fin (of_int (new_rape + new_pocso)),
                 k_disposed_rape = Fin (of_int disposed_rape),
                 k_disposed_pocso = Fin (of_int disposed_pocso),
                 k_disposed_total = Fin (of_int (disposed_rape + disposed_pocso)),
                 k_pending_rape = Fin (of_int (balance_rape + new_rape - disposed_rape)),
                 k_pending_pocso = Fin (of_int (balance_pocso + new_pocso - disposed_pocso)),
                 k_pending_total =
                   Fin (of_int (balance_rape + new_rape - disposed_rape
                                + (balance_pocso + new_pocso - disposed_pocso)))\<rparr>"
proof -
  have p: "(2::int) ^ 50 = 1125899906842624" "(2::int) ^ 53 = 9007199254740992" by simp_all
  note b = assms [unfolded p]
  have 1: "fadd (Fin (of_int balance_rape)) (Fin (of_int new_rape))
      = Fin (of_int (balance_rape + new_rape))"
    using b by (intro fadd_of_int) (simp add: p)
  have 2: "fsub (Fin (of_int (balance_rape + new_rape))) (Fin (of_int disposed_rape))
      = Fin (of_int (balance_rape + new_rape - disposed_rape))"
    using b by (intro fsub_of_int) (simp add: p)
  have 3: "fadd (Fin (of_int balance_pocso)) (Fin (of_int new_pocso))
      = Fin (of_int (balance_pocso + new_pocso))"
    using b by (intro fadd_of_int) (simp add: p)
  have 4: "fsub (Fin (of_int (balance_pocso + new_pocso))) (Fin (of_int disposed_pocso))
      = Fin (of_int (balance_pocso + new_pocso - disposed_pocso))"
    using b by (intro fsub_of_int) (simp add: p)
  have 5: "fadd (Fin (of_int balance_rape)) (Fin (of_int balance_pocso))
      = Fin (of_int (balance_rape + balance_pocso))"
    using b by (intro fadd_of_int) (simp add: p)
  have 6: "fadd (Fin (of_int new_rape)) (Fin (of_int new_pocso))
      = Fin (of_int (new_rape + new_pocso))"
    using b by (intro fadd_of_int) (simp add: p)
  have 7: "fadd (Fin (of_int disposed_rape)) (Fin (of_int disposed_pocso))
      = Fin (of_int (disposed_rape + disposed_pocso))"
    using b by (intro fadd_of_int) (simp add: p)
  have 8: "fadd (Fin (of_int (balance_rape + new_rape - disposed_rape)))
        (Fin (of_int (balance_pocso + new_pocso - disposed_pocso)))
      = Fin (of_int (balance_rape + new_rape - disposed_rape
                     + (balance_pocso + new_pocso - disposed_pocso)))"
    using b by (intro fadd_of_int) (simp add: p)
  have 9: "fadd (Fin (of_int (balance_rape + balance_pocso))) (Fin (of_int (new_rape + new_pocso)))
      = Fin (of_int (balance_rape + balance_pocso + (new_rape + new_pocso)))"
    using b by (intro fadd_of_int) (simp add: p)
  have 10: "fsub (Fin (of_int (balance_rape + balance_pocso + (new_rape + new_pocso))))
        (Fin (of_int (disposed_rape + disposed_pocso)))
      = Fin (of_int (balance_rape + balance_pocso + (new_rape + new_pocso)
                     - (disposed_rape + disposed_pocso)))"
    using b by (intro fsub_of_int) (simp add: p)
  have same: "balance_rape + new_rape - disposed_rape
        + (balance_pocso + new_pocso - disposed_pocso)
      = balance_rape + balance_pocso + (new_rape + new_pocso)
        - (disposed_rape + disposed_pocso)"
    by simp
  show ?thesis
    unfolding validate_basic_metrics_def Let_def 1 2 3 4 5 6 7 8 9 10 fne_def same
    by simp
qed

text \<open>
  On whole-number buckets up to \<open>2\<^sup>5\<^sup>0\<close> the sums of \<^verbatim>\<open>validate_age_breakdowns\<close> are exact
  too: it succeeds exactly when the buckets add up, as integers, to the given values, so
  that a bucket changed by one makes it fail.
\<close>

lemma fadd3_of_int:
  fixes a b c :: int
  assumes "\<bar>a\<bar> \<le> 2 ^ 50" "\<bar>b\<bar> \<le> 2 ^ 50" "\<bar>c\<bar> \<le> 2 ^ 50"
  shows "fadd (fadd (Fin (of_int a)) (Fin (of_int b))) (Fin (of_int c))
         = Fin (of_int (a + b + c))"
proof -
  have p: "(2::int) ^ 50 = 1125899906842624" "(2::int) ^ 53 = 9007199254740992" by simp_all
  note b = assms [unfolded p]
  have 1: "fadd (Fin (of_int a)) (Fin (of_int b)) = Fin (of_int (a + b))"
    using b by (intro fadd_of_int) (simp add: p)
  have 2: "fadd (Fin (of_int (a + b))) (Fin (of_int c)) = Fin (of_int (a + b + c))"
    using b by (intro fadd_of_int) (simp add: p)
  show ?thesis unfolding 1 2 ..
qed

lemma fadd4_of_int:
  fixes a b c d :: int
  assumes "\<bar>a\<bar> \<le> 2 ^ 50" "\<bar>b\<bar> \<le> 2 ^ 50" "\<bar>c\<bar> \<le> 2 ^ 50" "\<bar>d\<bar> \<le> 2 ^ 50"
  shows "fadd (fadd (fadd (Fin (of_int a)) (Fin (of_int b))) (Fin (of_int c))) (Fin (of_int d))
         = Fin (of_int (a + b + c + d))"
proof -
  have p: "(2::int) ^ 50 = 1125899906842624" "(2::int) ^ 53 = 9007199254740992" by simp_all
  note b = assms [unfolded p]
  have "fadd (Fin (of_int (a + b + c))) (Fin (of_int d)) = Fin (of_int (a + b + c + d))"
    using b by (intro fadd_of_int) (simp add: p)
  then show ?thesis unfolding fadd3_of_int [OF assms(1-3)] .
qed

lemma validate_age_breakdowns_whole_numbers:
  fixes pending_rape pending_pocso disposed_rape disposed_pocso
    pending_less_2m_rape pending_less_2m_pocso pending_2_12m_rape pending_2_12m_pocso
    pending_12m_5y_rape pending_12m_5y_pocso pending_beyond_5y_rape pending_beyond_5y_pocso
    disposal_within_2m_rape disposal_within_2m_pocso disposal_2_12m_rape disposal_2_12m_pocso
    disposal_beyond_12m_rape disposal_beyond_12m_pocso :: int
  assumes "\<bar>pending_less_2m_rape\<bar> \<le> 2 ^ 50" "\<bar>pending_less_2m_pocso\<bar> \<le> 2 ^ 50"
    and "\<bar>pending_2_12m_rape\<bar> \<le> 2 ^ 50" "\<bar>pending_2_12m_pocso\<bar> \<le> 2 ^ 50"
    and "\<bar>pending_12m_5y_rape\<bar> \<le> 2 ^ 50" "\<bar>pending_12m_5y_pocso\<bar> \<le> 2 ^ 50"
    and "\<bar>pending_beyond_5y_rape\<bar> \<le> 2 ^ 50" "\<bar>pending_beyond_5y_pocso\<bar> \<le> 2 ^ 50"
    and "\<bar>disposal_within_2m_rape\<bar> \<le> 2 ^ 50" "\<bar>disposal_within_2m_pocso\<bar> \<le> 2 ^ 50"
    and "\<bar>disposal_2_12m_rape\<bar> \<le> 2 ^ 50" "\<bar>disposal_2_12m_pocso\<bar> \<le> 2 ^ 50"
    and "\<bar>disposal_beyond_12m_rape\<bar> \<le> 2 ^ 50" "\<bar>disposal_beyond_12m_pocso\<bar> \<le> 2 ^ 50"
  shows
    "(\<exists>r. validate_age_breakdowns
            (Fin (of_int pending_rape)) (Fin (of_int pending_pocso))
            (Fin (of_int disposed_rape)) (Fin (of_int disposed_pocso))
            (Fin (of_int pending_less_2m_rape)) (Fin (of_int pending_less_2m_pocso))
            (Fin (of_int pending_2_12m_rape)) (Fin (of_int pending_2_12m_pocso))
            (Fin (of_int pending_12m_5y_rape)) (Fin (of_int pending_12m_5y_pocso))
            (Fin (of_int pending_beyond_5y_rape)) (Fin (of_int pending_beyond_5y_pocso))
            (Fin (of_int disposal_within_2m_rape)) (Fin (of_int disposal_within_2m_pocso))
            (Fin (of_int disposal_2_12m_rape)) (Fin (of_int disposal_2_12m_pocso))
            (Fin (of_int disposal_beyond_12m_rape)) (Fin (of_int disposal_beyond_12m_pocso))
          = Inr r)
     \<longleftrightarrow>
       pending_less_2m_rape + pending_2_12m_rape + pending_12m_5y_rape
         + pending_beyond_5y_rape = pending_rape \<and>
       pending_less_2m_pocso + pending_2_12m_pocso + pending_12m_5y_pocso
         + pending_beyond_5y_pocso = pending_pocso \<and>
       disposal_within_2m_rape + disposal_2_12m_rape + disposal_beyond_12m_rape
         = disposed_rape \<and>
       disposal_within_2m_pocso + disposal_2_12m_pocso + disposal_beyond_12m_pocso
         = disposed_pocso"
  unfolding validate_age_breakdowns_def Let_def
    fadd4_of_int [OF assms(1,3,5,7)] fadd4_of_int [OF assms(2,4,6,8)]
    fadd3_of_int [OF assms(9,11,13)] fadd3_of_int [OF assms(10,12,14)]
  by (auto simp: fne_def)

text \<open>
  On fractional counts the check can fail. Here the pending counts are \<^verbatim>\<open>0.1\<close> and
  \<^verbatim>\<open>0.3 - 0.1 = 0.19999999999999998\<close>, their total is \<^verbatim>\<open>0.3\<close>, and it is compared with
  \<^verbatim>\<open>(0.1 + 0.3) - 0.1 = 0.30000000000000004\<close>.
\<close>

lemma basic_metrics_rounding_example:
  "validate_basic_metrics (py_float 0) (py_float 0) (py_float (1 / 10)) (py_float (3 / 10))
     (py_float 0) (py_float (1 / 10))
   = Inl InvariantViolation"
  by code_simp

text \<open>
  What \<^verbatim>\<open>validate_age_breakdowns\<close> checks, in terms of the sums it computes itself: each
  is a chain of float additions from left to right, every addition rounded. It succeeds
  exactly when these four rounded sums are \<^verbatim>\<open>==\<close> the given values, and the first one
  that is not raises \<open>SumMismatch\<close> with the category, the breakdown and the two sides.
  This says nothing yet about the sum of the buckets themselves, which a rounded sum need
  not be.
\<close>

lemma validate_age_breakdowns_checks:
  fixes pending_rape pending_pocso disposed_rape disposed_pocso
    pending_less_2m_rape pending_less_2m_pocso pending_2_12m_rape pending_2_12m_pocso
    pending_12m_5y_rape pending_12m_5y_pocso pending_beyond_5y_rape pending_beyond_5y_pocso
    disposal_within_2m_rape disposal_within_2m_pocso disposal_2_12m_rape disposal_2_12m_pocso
    disposal_beyond_12m_rape disposal_beyond_12m_pocso :: f64
  defines "tpr \<equiv> fadd (fadd (fadd pending_less_2m_rape pending_2_12m_rape)
                      pending_12m_5y_rape) pending_beyond_5y_rape"
    and "tpp \<equiv> fadd (fadd (fadd pending_less_2m_pocso pending_2_12m_pocso)
                      pending_12m_5y_pocso) pending_beyond_5y_pocso"
    and "tdr \<equiv> fadd (fadd disposal_within_2m_rape disposal_2_12m_rape) disposal_beyond_12m_rape"
    and "tdp \<equiv> fadd (fadd disposal_within_2m_pocso disposal_2_12m_pocso) disposal_beyond_12m_pocso"
  defines "v \<equiv> validate_age_breakdowns pending_rape pending_pocso disposed_rape disposed_pocso
      pending_less_2m_rape pending_less_2m_pocso pending_2_12m_rape pending_2_12m_pocso
      pending_12m_5y_rape pending_12m_5y_pocso pending_beyond_5y_rape pending_beyond_5y_pocso
      disposal_within_2m_rape disposal_within_2m_pocso disposal_2_12m_rape disposal_2_12m_pocso
      disposal_beyond_12m_rape disposal_beyond_12m_pocso"
  shows
    "((\<exists>r. v = Inr r) \<longleftrightarrow>
        feq tpr pending_rape \<and> feq tpp pending_pocso \<and>
        feq tdr disposed_rape \<and> feq tdp disposed_pocso) \<and>
     (\<forall>r. v = Inr r \<longrightarrow>
        k_total_pendency_rape r = tpr \<and> k_total_pendency_rape r = pending_rape \<and>
        k_total_pendency_pocso r = tpp \<and> k_total_pendency_pocso r = pending_pocso \<and>
        k_total_disposal_rape r = tdr \<and> k_total_disposal_rape r = disposed_rape \<and>
        k_total_disposal_pocso r = tdp \<and> k_total_disposal_pocso r = disposed_pocso) \<and>
     (\<not> (feq tpr pending_rape \<and> feq tpp pending_pocso \<and>
         feq tdr disposed_rape \<and> feq tdp disposed_pocso) \<longrightarrow>
        (\<exists>c b x y. v = Inl (SumMismatch c b x y) \<and> \<not> feq x y \<and>
           (c, b, x, y) \<in> {(RAPE, Pendency, tpr, pending_rape),
                             (POCSO, Pendency, tpp, pending_pocso),
                             (RAPE, Disposal, tdr, disposed_rape),
                             (POCSO, Disposal, tdp, disposed_pocso)}))"
  unfolding v_def tpr_def tpp_def tdr_def tdp_def
  by (auto simp: validate_age_breakdowns_def Let_def fne_iff_not_feq feq_def)

section \<open>The worked example, and what every reachable store satisfies\<close>

lemmas example_defs = court_attingal_def courts_example_def db_empty_def db_committed_def
  db_failing_def basic_example_def age_example_def additional_example_def
  partial_after_step1_def partial_after_step2_def store_after_step1_def store_after_step2_def
  row_example_def

lemma step1_example:
  "tool_call db_empty Map.empty
     (Step1 ''FTSC Attingal'' 1 2025 (Fin 50) (Fin 30) (Fin 5) (Fin 3) (Fin 4) (Fin 2))
   = (Step1_complete basic_example, store_after_step1, [])"
  by (simp add: insert_step1_basic_metrics_def validate_month_year_def
      validate_basic_metrics_def fne_def example_defs)

lemma step2_example:
  "tool_call db_empty store_after_step1
     (Step2 ''FTSC Attingal'' 1 2025 (Fin 10) (Fin 5) (Fin 15) (Fin 10) (Fin 20) (Fin 12)
        (Fin 6) (Fin 4) (Fin 1) (Fin 1) (Fin 2) (Fin 1) (Fin 1) (Fin 0))
   = (Step2_complete age_example, store_after_step2, [])"
  by (simp add: insert_step2_age_breakdowns_def validate_age_breakdowns_def Let_def fne_def
      example_defs)

lemma step3_example:
  "tool_call db_empty store_after_step2
     (Step3 ''FTSC Attingal'' 1 2025 (Fin 3) (Fin 2) (Fin 3) (Fin 2) (Fin 6) (Fin 4)
        (Fin 2) (Fin 1))
   = (Data_entry_complete partial_after_step2 additional_example, Map.empty,
      [(1, 1, 2025, row_example)])"
  by (simp add: insert_step3_additional_metrics_def validate_additional_metrics_def
      insert_court_monthly_data_def example_defs)

lemma reachable_after_step1: "reachable store_after_step1"
  using reachable.step [OF reachable.fresh step1_example] .

lemma reachable_after_step2: "reachable store_after_step2"
  using reachable.step [OF reachable_after_step1 step2_example] .

lemma step1_store:
  "insert_step1_basic_metrics db s n m y b1 b2 b3 b4 b5 b6 = (r, s', sent) \<Longrightarrow>
   s' = s \<or>
   (\<exists>c calc. 1 \<le> m \<and> m \<le> 12 \<and> 2020 \<le> y \<and> y \<le> 2030 \<and>
      s' = s((c, m, y) \<mapsto>
        \<lparr>k_court_id = c, k_court_name = n, k_month = m, k_year = y, basic = calc,
         k_step1_complete = True, age = None, k_step2_complete = False\<rparr>))"
  by (auto simp: insert_step1_basic_metrics_def validate_month_year_def
      split: sum.splits option.splits bool.splits if_splits)

lemma step2_store:
  "insert_step2_age_breakdowns db s n m y a1 a2 a3 a4 a5 a6 a7 a8 a9 a10 a11 a12 a13 a14
     = (r, s', sent) \<Longrightarrow>
   s' = s \<or>
   (\<exists>c p a. s (c, m, y) = Some p \<and> k_step1_complete p \<and>
      s' = s((c, m, y) \<mapsto> p\<lparr>age := Some a, k_step2_complete := True\<rparr>))"
  by (auto simp: insert_step2_age_breakdowns_def
      split: sum.splits option.splits bool.splits if_splits)

lemma step3_store:
  "insert_step3_additional_metrics db s n m y c1 c2 c3 c4 c5 c6 c7 c8 = (r, s', sent) \<Longrightarrow>
   s' = s \<or> (\<exists>c. s' = s((c, m, y) := None))"
  by (auto simp: insert_step3_additional_metrics_def
      split: sum.splits option.splits bool.splits if_splits prod.splits)

lemma reachable_entry:
  "reachable s \<Longrightarrow> s (c, m, y) = Some p \<Longrightarrow>
   1 \<le> m \<and> m \<le> 12 \<and> 2020 \<le> y \<and> y \<le> 2030 \<and>
   k_step1_complete p \<and> (k_step2_complete p \<longrightarrow> age p \<noteq> None)"
proof (induction arbitrary: c m y p rule: reachable.induct)
  case fresh
  then show ?case by simp
next
  case (step s db cl r s' sent)
  show ?case
  proof (cases cl)
    case (Step1 n m' y' b1 b2 b3 b4 b5 b6)
    with step.hyps(2) have
      "insert_step1_basic_metrics db s n m' y' b1 b2 b3 b4 b5 b6 = (r, s', sent)" by simp
    from step1_store [OF this] step.IH step.prems show ?thesis
      by (auto split: if_splits)
  next
    case (Step2 n m' y' a1 a2 a3 a4 a5 a6 a7 a8 a9 a10 a11 a12 a13 a14)
    with step.hyps(2) have
      "insert_step2_age_breakdowns db s n m' y' a1 a2 a3 a4 a5 a6 a7 a8 a9 a10 a11 a12 a13 a14
         = (r, s', sent)" by simp
    from step2_store [OF this] step.IH step.prems show ?thesis
      by (auto split: if_splits)
  next
    case (Step3 n m' y' c1 c2 c3 c4 c5 c6 c7 c8)
    with step.hyps(2) have
      "insert_step3_additional_metrics db s n m' y' c1 c2 c3 c4 c5 c6 c7 c8 = (r, s', sent)"
      by simp
    from step3_store [OF this] step.IH step.prems show ?thesis
      by (auto split: if_splits)
  qed
qed

section \<open>The claims\<close>

text \<open>
  Claim C1 says that \<^verbatim>\<open>validate_basic_metrics\<close> succeeds on all non-negative inputs and
  returns pending = balance + new - disposed for each category and totals that are the
  sums over the two categories. The code computes these values, but it does not succeed on
  all non-negative inputs: for \<^verbatim>\<open>new_rape = 0.1\<close>, \<^verbatim>\<open>new_pocso = 0.2\<close>,
  \<^verbatim>\<open>disposed_pocso = 0.1\<close> and the rest \<^verbatim>\<open>0.0\<close>, the pending total is \<^verbatim>\<open>0.1 + 0.1 = 0.2\<close>,
  the value it is compared with is \<^verbatim>\<open>(0.0 + (0.1 + 0.2)) - 0.1 = 0.20000000000000004\<close>, and
  the function raises "Pending calculation mismatch".
\<close>

theorem basic_metrics_rejects_fractional_counts:
  "validate_basic_metrics (py_float 0) (py_float 0) (py_float (1 / 10)) (py_float (2 / 10))
     (py_float 0) (py_float (1 / 10))
   = Inl InvariantViolation"
  by code_simp

text \<open>
  Claim C2 says that \<^verbatim>\<open>validate_age_breakdowns\<close> succeeds if and only if, for each
  category, the four pendency buckets sum exactly to the given pending value and the three
  disposal buckets sum exactly to the given disposed value, and that it fails with
  \<open>SumMismatch\<close> otherwise. The failure is a \<open>SumMismatch\<close> with the category and both
  sides, as claimed, but the code does not succeed whenever the buckets sum exactly to the
  given value. Step 1 with \<^verbatim>\<open>balance_rape = 0.9\<close> and the rest \<^verbatim>\<open>0.0\<close> stores
  \<^verbatim>\<open>pending_rape = 0.9\<close>. The pendency buckets \<^verbatim>\<open>0.2\<close>, \<^verbatim>\<open>0.4\<close>, \<^verbatim>\<open>0.3\<close>, \<^verbatim>\<open>0.0\<close> are floats
  whose values add up to the value of the float \<^verbatim>\<open>0.9\<close> exactly; the code adds them as
  \<^verbatim>\<open>0.2 + 0.4 = 0.6000000000000001\<close>, then \<^verbatim>\<open>+ 0.3 = 0.9000000000000001\<close>, and raises
  "RAPE pendency breakdown sum (0.9000000000000001) != pending_rape (0.9)".
\<close>

theorem exact_bucket_sum_rejected:
  "py_float (2 / 10) = Fin (3602879701896397 / 18014398509481984) \<and>
   py_float (4 / 10) = Fin (3602879701896397 / 9007199254740992) \<and>
   py_float (3 / 10) = Fin (5404319552844595 / 18014398509481984) \<and>
   py_float (9 / 10) = Fin (8106479329266893 / 9007199254740992) \<and>
   (3602879701896397 / 18014398509481984 + 3602879701896397 / 9007199254740992
      + 5404319552844595 / 18014398509481984 + 0 :: rat)
     = 8106479329266893 / 9007199254740992 \<and>
   validate_basic_metrics (py_float (9 / 10)) (py_float 0) (py_float 0) (py_float 0)
       (py_float 0) (py_float 0)
     = Inr \<lparr>k_balance_rape = py_float (9 / 10), k_balance_pocso = Fin 0,
            k_balance_total = py_float (9 / 10),
            k_new_rape = Fin 0, k_new_pocso = Fin 0, k_new_total = Fin 0,
            k_disposed_rape = Fin 0, k_disposed_pocso = Fin 0, k_disposed_total = Fin 0,
            k_pending_rape = py_float (9 / 10), k_pending_pocso = Fin 0,
            k_pending_total = py_float (9 / 10)\<rparr> \<and>
   validate_age_breakdowns (py_float (9 / 10)) (py_float 0) (py_float 0) (py_float 0)
       (py_float (2 / 10)) (py_float 0) (py_float (4 / 10)) (py_float 0)
       (py_float (3 / 10)) (py_float 0) (py_float 0) (py_float 0)
       (py_float 0) (py_float 0) (py_float 0) (py_float 0) (py_float 0) (py_float 0)
     = Inl (SumMismatch RAPE Pendency
              (Fin (4053239664633447 / 4503599627370496))
              (Fin (8106479329266893 / 9007199254740992)))"
  by code_simp

text \<open>
  Nor does success mean that the buckets sum to the given value. Step 1 with
  \<^verbatim>\<open>balance_rape = 0.1\<close> and \<^verbatim>\<open>new_rape = 0.2\<close> stores
  \<^verbatim>\<open>pending_rape = 0.30000000000000004\<close>, and the buckets \<^verbatim>\<open>0.1\<close>, \<^verbatim>\<open>0.2\<close>, \<^verbatim>\<open>0.0\<close>, \<^verbatim>\<open>0.0\<close>
  are accepted against it, although the values of the floats \<^verbatim>\<open>0.1\<close> and \<^verbatim>\<open>0.2\<close> add up
  to a number that is not that float.
\<close>

lemma inexact_bucket_sum_accepted:
  "py_float (1 / 10) = Fin (3602879701896397 / 36028797018963968) \<and>
   py_float (2 / 10) = Fin (3602879701896397 / 18014398509481984) \<and>
   (3602879701896397 / 36028797018963968 + 3602879701896397 / 18014398509481984 + 0 + 0 :: rat)
     \<noteq> 1351079888211149 / 4503599627370496 \<and>
   k_pending_rape (projr (validate_basic_metrics (py_float (1 / 10)) (py_float 0)
       (py_float (2 / 10)) (py_float 0) (py_float 0) (py_float 0)))
     = Fin (1351079888211149 / 4503599627370496) \<and>
   \<not> isl (validate_age_breakdowns (Fin (1351079888211149 / 4503599627370496)) (py_float 0)
       (py_float 0) (py_float 0)
       (py_float (1 / 10)) (py_float 0) (py_float (2 / 10)) (py_float 0)
       (py_float 0) (py_float 0) (py_float 0) (py_float 0)
       (py_float 0) (py_float 0) (py_float 0) (py_float 0) (py_float 0) (py_float 0))"
  by code_simp

text \<open>
  Claim C3. \<^verbatim>\<open>validate_additional_metrics\<close> fails with \<open>SubsetViolation\<close>, naming the field
  and the category and carrying the value and the bound it exceeds, whenever contested or
  disposal_5y exceeds disposed, or pending_over_5y exceeds pending, in either category. It
  succeeds when each of the six is less than or equal to its bound, equality included,
  and then returns the values it was given and the totals over the two categories.
\<close>

theorem additional_metrics_subsets:
  fixes pending_rape pending_pocso disposed_rape disposed_pocso
    contested_rape contested_pocso disposal_5y_rape disposal_5y_pocso
    pending_over_5y_rape pending_over_5y_pocso convictions_rape convictions_pocso :: f64
  defines "v \<equiv> validate_additional_metrics pending_rape pending_pocso disposed_rape
      disposed_pocso contested_rape contested_pocso disposal_5y_rape disposal_5y_pocso
      pending_over_5y_rape pending_over_5y_pocso convictions_rape convictions_pocso"
  shows
    "(fgt contested_rape disposed_rape \<or> fgt contested_pocso disposed_pocso \<or>
      fgt disposal_5y_rape disposed_rape \<or> fgt disposal_5y_pocso disposed_pocso \<or>
      fgt pending_over_5y_rape pending_rape \<or> fgt pending_over_5y_pocso pending_pocso
      \<longrightarrow> (\<exists>f c x y. v = Inl (SubsetViolation f c x y) \<and> fgt x y \<and>
             (f, c, x, y) \<in> {(Contested, RAPE, contested_rape, disposed_rape),
                               (Contested, POCSO, contested_pocso, disposed_pocso),
                               (Disposal_5y, RAPE, disposal_5y_rape, disposed_rape),
                               (Disposal_5y, POCSO, disposal_5y_pocso, disposed_pocso),
                               (Pending_over_5y, RAPE, pending_over_5y_rape, pending_rape),
                               (Pending_over_5y, POCSO, pending_over_5y_pocso,
                                pending_pocso)})) \<and>
     (fle contested_rape disposed_rape \<and> fle contested_pocso disposed_pocso \<and>
      fle disposal_5y_rape disposed_rape \<and> fle disposal_5y_pocso disposed_pocso \<and>
      fle pending_over_5y_rape pending_rape \<and> fle pending_over_5y_pocso pending_pocso
      \<longrightarrow> v = Inr \<lparr>k_contested_rape = contested_rape,
                    k_contested_pocso = contested_pocso,
                    k_contested_total = fadd contested_rape contested_pocso,
                    k_disposal_5y_rape = disposal_5y_rape,
                    k_disposal_5y_pocso = disposal_5y_pocso,
                    k_disposal_5y_total = fadd disposal_5y_rape disposal_5y_pocso,
                    k_pending_over_5y_rape = pending_over_5y_rape,
                    k_pending_over_5y_pocso = pending_over_5y_pocso,
                    k_pending_over_5y_total = fadd pending_over_5y_rape pending_over_5y_pocso,
                    k_convictions_rape = convictions_rape,
                    k_convictions_pocso = convictions_pocso\<rparr>)"
  unfolding v_def
  by (auto simp: validate_additional_metrics_def Let_def dest: fle_not_fgt)

theorem additional_metrics_subsets_witness:
  "fle (Fin 4) (Fin 4) \<and> fle (Fin 2) (Fin 2) \<and> fle (Fin 3) (Fin 4) \<and>
   fle (Fin 6) (Fin 51) \<and> fle (Fin 4) (Fin 31) \<and>
   validate_additional_metrics (Fin 51) (Fin 31) (Fin 4) (Fin 2)
       (Fin 4) (Fin 2) (Fin 3) (Fin 2) (Fin 6) (Fin 4) (Fin 2) (Fin 1)
     = Inr \<lparr>k_contested_rape = Fin 4, k_contested_pocso = Fin 2,
            k_contested_total = Fin 6,
            k_disposal_5y_rape = Fin 3, k_disposal_5y_pocso = Fin 2,
            k_disposal_5y_total = Fin 5,
            k_pending_over_5y_rape = Fin 6, k_pending_over_5y_pocso = Fin 4,
            k_pending_over_5y_total = Fin 10,
            k_convictions_rape = Fin 2, k_convictions_pocso = Fin 1\<rparr> \<and>
   fgt (Fin 5) (Fin 4) \<and>
   (\<exists>f c x y. validate_additional_metrics (Fin 51) (Fin 31) (Fin 4) (Fin 2)
       (Fin 5) (Fin 2) (Fin 3) (Fin 2) (Fin 6) (Fin 4) (Fin 2) (Fin 1)
     = Inl (SubsetViolation f c x y) \<and> fgt x y)"
proof -
  have le: "fle (Fin 4) (Fin 4)" "fle (Fin 2) (Fin 2)" "fle (Fin 3) (Fin 4)"
    "fle (Fin 6) (Fin 51)" "fle (Fin 4) (Fin 31)"
    by simp_all
  have gt: "fgt (Fin 5) (Fin 4)" by simp
  note good = additional_metrics_subsets [where pending_rape = "Fin 51"
      and pending_pocso = "Fin 31" and disposed_rape = "Fin 4" and disposed_pocso = "Fin 2"
      and contested_rape = "Fin 4" and contested_pocso = "Fin 2"
      and disposal_5y_rape = "Fin 3" and disposal_5y_pocso = "Fin 2"
      and pending_over_5y_rape = "Fin 6" and pending_over_5y_pocso = "Fin 4"
      and convictions_rape = "Fin 2" and convictions_pocso = "Fin 1"]
  note bad = additional_metrics_subsets [where pending_rape = "Fin 51"
      and pending_pocso = "Fin 31" and disposed_rape = "Fin 4" and disposed_pocso = "Fin 2"
      and contested_rape = "Fin 5" and contested_pocso = "Fin 2"
      and disposal_5y_rape = "Fin 3" and disposal_5y_pocso = "Fin 2"
      and pending_over_5y_rape = "Fin 6" and pending_over_5y_pocso = "Fin 4"
      and convictions_rape = "Fin 2" and convictions_pocso = "Fin 1"]
  from good [THEN conjunct2] le
  have ok: "validate_additional_metrics (Fin 51) (Fin 31) (Fin 4) (Fin 2)
       (Fin 4) (Fin 2) (Fin 3) (Fin 2) (Fin 6) (Fin 4) (Fin 2) (Fin 1)
     = Inr \<lparr>k_contested_rape = Fin 4, k_contested_pocso = Fin 2,
            k_contested_total = Fin 6,
            k_disposal_5y_rape = Fin 3, k_disposal_5y_pocso = Fin 2,
            k_disposal_5y_total = Fin 5,
            k_pending_over_5y_rape = Fin 6, k_pending_over_5y_pocso = Fin 4,
            k_pending_over_5y_total = Fin 10,
            k_convictions_rape = Fin 2, k_convictions_pocso = Fin 1\<rparr>"
    by simp
  from bad [THEN conjunct1] gt
  have no: "\<exists>f c x y. validate_additional_metrics (Fin 51) (Fin 31) (Fin 4) (Fin 2)
       (Fin 5) (Fin 2) (Fin 3) (Fin 2) (Fin 6) (Fin 4) (Fin 2) (Fin 1)
     = Inl (SubsetViolation f c x y) \<and> fgt x y"
    by blast
  from le ok gt no show ?thesis by blast
qed

text \<open>
  Claim C4. For every key (court id, month, year): step 2, called when the store has no
  entry for the key or the entry's \<^verbatim>\<open>step1_complete\<close> is unset, fails with a
  step-order violation; step 3, called when the store has no entry for the key or the
  entry's \<^verbatim>\<open>step2_complete\<close> is unset, fails with a step-order violation. In each case
  the store is unchanged and nothing is sent to the database. The key has a court id, so
  the court of the call is one the database knows.
\<close>

theorem step_order_violation:
  assumes "get_court_by_name db court_name = Inr (Some court)"
  shows
    "((partial_data_store (k_id court, month, year) = None \<or>
       (\<exists>p. partial_data_store (k_id court, month, year) = Some p \<and> \<not> k_step1_complete p))
      \<longrightarrow> insert_step2_age_breakdowns db partial_data_store court_name month year
            a1 a2 a3 a4 a5 a6 a7 a8 a9 a10 a11 a12 a13 a14
          = (Failure (StepOrderViolation 1), partial_data_store, [])) \<and>
     (partial_data_store (k_id court, month, year) = None
      \<longrightarrow> insert_step3_additional_metrics db partial_data_store court_name month year
            c1 c2 c3 c4 c5 c6 c7 c8
          = (Failure (StepOrderViolation 1), partial_data_store, [])) \<and>
     ((\<exists>p. partial_data_store (k_id court, month, year) = Some p \<and> \<not> k_step2_complete p)
      \<longrightarrow> insert_step3_additional_metrics db partial_data_store court_name month year
            c1 c2 c3 c4 c5 c6 c7 c8
          = (Failure (StepOrderViolation 2), partial_data_store, []))"
  using assms
  by (auto simp: insert_step2_age_breakdowns_def insert_step3_additional_metrics_def)

theorem step_order_violation_witness:
  "insert_step2_age_breakdowns db_empty Map.empty ''FTSC Attingal'' 1 2025
       (Fin 10) (Fin 5) (Fin 15) (Fin 10) (Fin 20) (Fin 12) (Fin 6) (Fin 4)
       (Fin 1) (Fin 1) (Fin 2) (Fin 1) (Fin 1) (Fin 0)
     = (Failure (StepOrderViolation 1), Map.empty, []) \<and>
   insert_step3_additional_metrics db_empty Map.empty ''FTSC Attingal'' 1 2025
       (Fin 3) (Fin 2) (Fin 3) (Fin 2) (Fin 6) (Fin 4) (Fin 2) (Fin 1)
     = (Failure (StepOrderViolation 1), Map.empty, []) \<and>
   insert_step3_additional_metrics db_empty store_after_step1 ''FTSC Attingal'' 1 2025
       (Fin 3) (Fin 2) (Fin 3) (Fin 2) (Fin 6) (Fin 4) (Fin 2) (Fin 1)
     = (Failure (StepOrderViolation 2), store_after_step1, [])"
proof -
  have court: "get_court_by_name db_empty ''FTSC Attingal'' = Inr (Some court_attingal)"
    by (simp add: db_empty_def courts_example_def)
  have none: "Map.empty (k_id court_attingal, 1::int, 2025::int) = (None :: partial_data option)"
    by simp
  have unset: "\<exists>p. store_after_step1 (k_id court_attingal, 1, 2025) = Some p \<and>
      \<not> k_step2_complete p"
    by (simp add: store_after_step1_def partial_after_step1_def court_attingal_def)
  note inst = step_order_violation [OF court, where month = 1 and year = 2025
      and ?a1.0 = "Fin 10" and ?a2.0 = "Fin 5" and ?a3.0 = "Fin 15" and ?a4.0 = "Fin 10"
      and ?a5.0 = "Fin 20" and ?a6.0 = "Fin 12" and ?a7.0 = "Fin 6" and ?a8.0 = "Fin 4"
      and ?a9.0 = "Fin 1" and ?a10.0 = "Fin 1" and ?a11.0 = "Fin 2" and ?a12.0 = "Fin 1"
      and ?a13.0 = "Fin 1" and ?a14.0 = "Fin 0"
      and ?c1.0 = "Fin 3" and ?c2.0 = "Fin 2" and ?c3.0 = "Fin 3" and ?c4.0 = "Fin 2"
      and ?c5.0 = "Fin 6" and ?c6.0 = "Fin 4" and ?c7.0 = "Fin 2" and ?c8.0 = "Fin 1"]
  from inst [of Map.empty] none inst [of store_after_step1] unset
  show ?thesis by blast
qed

text \<open>
  Claim C5. In every call of step 1, 2 or 3 in which a validator or the check of the
  completed steps fails, the call returns that failure, the store after the call is the
  store before it, and no \<^verbatim>\<open>INSERT\<close> is sent. The first conjunct says it of every call
  by its response; the others say, validator by validator and check by check, that its
  failure is what the call returns.
\<close>

theorem failed_step_changes_nothing:
  "(tool_call db s c = (Failure e, s', sent) \<and> validation_or_order_failure e
      \<longrightarrow> s' = s \<and> sent = []) \<and>
   (validate_month_year month year = Inl e1
      \<longrightarrow> insert_step1_basic_metrics db s court_name month year b1 b2 b3 b4 b5 b6
          = (Failure e1, s, [])) \<and>
   (validate_month_year month year = Inr ok \<and>
    get_court_by_name db court_name = Inr (Some court) \<and>
    check_existing_data db (k_id court) month year = Inr False \<and>
    validate_basic_metrics b1 b2 b3 b4 b5 b6 = Inl e2
      \<longrightarrow> insert_step1_basic_metrics db s court_name month year b1 b2 b3 b4 b5 b6
          = (Failure e2, s, [])) \<and>
   (get_court_by_name db court_name = Inr (Some court) \<and>
    (s (k_id court, month, year) = None \<or>
     (\<exists>p. s (k_id court, month, year) = Some p \<and> \<not> k_step1_complete p))
      \<longrightarrow> insert_step2_age_breakdowns db s court_name month year
            a1 a2 a3 a4 a5 a6 a7 a8 a9 a10 a11 a12 a13 a14
          = (Failure (StepOrderViolation 1), s, [])) \<and>
   (get_court_by_name db court_name = Inr (Some court) \<and>
    s (k_id court, month, year) = Some p2 \<and> k_step1_complete p2 \<and>
    validate_age_breakdowns
      (k_pending_rape (basic p2)) (k_pending_pocso (basic p2))
      (k_disposed_rape (basic p2)) (k_disposed_pocso (basic p2))
      a1 a2 a3 a4 a5 a6 a7 a8 a9 a10 a11 a12 a13 a14 = Inl e3
      \<longrightarrow> insert_step2_age_breakdowns db s court_name month year
            a1 a2 a3 a4 a5 a6 a7 a8 a9 a10 a11 a12 a13 a14
          = (Failure e3, s, [])) \<and>
   (get_court_by_name db court_name = Inr (Some court) \<and>
    (s (k_id court, month, year) = None \<or>
     (\<exists>p. s (k_id court, month, year) = Some p \<and> \<not> k_step2_complete p))
      \<longrightarrow> (\<exists>n. insert_step3_additional_metrics db s court_name month year
            c1 c2 c3 c4 c5 c6 c7 c8
          = (Failure (StepOrderViolation n), s, []))) \<and>
   (get_court_by_name db court_name = Inr (Some court) \<and>
    s (k_id court, month, year) = Some p3 \<and> k_step2_complete p3 \<and>
    validate_additional_metrics
      (k_pending_rape (basic p3)) (k_pending_pocso (basic p3))
      (k_disposed_rape (basic p3)) (k_disposed_pocso (basic p3))
      c1 c2 c3 c4 c5 c6 c7 c8 = Inl e4
      \<longrightarrow> insert_step3_additional_metrics db s court_name month year
            c1 c2 c3 c4 c5 c6 c7 c8
          = (Failure e4, s, []))"
proof -
  have unchanged: "tool_call db s c = (Failure e, s', sent) \<and> validation_or_order_failure e
      \<longrightarrow> s' = s \<and> sent = []"
  proof (cases c)
    case (Step1 n m y x1 x2 x3 x4 x5 x6)
    then show ?thesis
      by (auto simp: insert_step1_basic_metrics_def
          split: sum.splits option.splits bool.splits)
  next
    case (Step2 n m y x1 x2 x3 x4 x5 x6 x7 x8 x9 x10 x11 x12 x13 x14)
    then show ?thesis
      by (auto simp: insert_step2_age_breakdowns_def
          split: sum.splits option.splits if_splits)
  next
    case (Step3 n m y x1 x2 x3 x4 x5 x6 x7 x8)
    then show ?thesis
      by (auto simp: insert_step3_additional_metrics_def insert_court_monthly_data_def Let_def
          split: sum.splits option.splits if_splits prod.splits)
  qed
  have f1: "validate_month_year month year = Inl e1
      \<longrightarrow> insert_step1_basic_metrics db s court_name month year b1 b2 b3 b4 b5 b6
          = (Failure e1, s, [])"
    by (simp add: insert_step1_basic_metrics_def)
  have f2: "validate_month_year month year = Inr ok \<and>
    get_court_by_name db court_name = Inr (Some court) \<and>
    check_existing_data db (k_id court) month year = Inr False \<and>
    validate_basic_metrics b1 b2 b3 b4 b5 b6 = Inl e2
      \<longrightarrow> insert_step1_basic_metrics db s court_name month year b1 b2 b3 b4 b5 b6
          = (Failure e2, s, [])"
    by (simp add: insert_step1_basic_metrics_def)
  have s2: "get_court_by_name db court_name = Inr (Some court) \<and>
    (s (k_id court, month, year) = None \<or>
     (\<exists>p. s (k_id court, month, year) = Some p \<and> \<not> k_step1_complete p))
      \<longrightarrow> insert_step2_age_breakdowns db s court_name month year
            a1 a2 a3 a4 a5 a6 a7 a8 a9 a10 a11 a12 a13 a14
          = (Failure (StepOrderViolation 1), s, [])"
    by (auto simp: insert_step2_age_breakdowns_def)
  have f3: "get_court_by_name db court_name = Inr (Some court) \<and>
    s (k_id court, month, year) = Some p2 \<and> k_step1_complete p2 \<and>
    validate_age_breakdowns
      (k_pending_rape (basic p2)) (k_pending_pocso (basic p2))
      (k_disposed_rape (basic p2)) (k_disposed_pocso (basic p2))
      a1 a2 a3 a4 a5 a6 a7 a8 a9 a10 a11 a12 a13 a14 = Inl e3
      \<longrightarrow> insert_step2_age_breakdowns db s court_name month year
            a1 a2 a3 a4 a5 a6 a7 a8 a9 a10 a11 a12 a13 a14
          = (Failure e3, s, [])"
    by (simp add: insert_step2_age_breakdowns_def)
  have s3: "get_court_by_name db court_name = Inr (Some court) \<and>
    (s (k_id court, month, year) = None \<or>
     (\<exists>p. s (k_id court, month, year) = Some p \<and> \<not> k_step2_complete p))
      \<longrightarrow> (\<exists>n. insert_step3_additional_metrics db s court_name month year
            c1 c2 c3 c4 c5 c6 c7 c8
          = (Failure (StepOrderViolation n), s, []))"
    by (auto simp: insert_step3_additional_metrics_def)
  have f4: "get_court_by_name db court_name = Inr (Some court) \<and>
    s (k_id court, month, year) = Some p3 \<and> k_step2_complete p3 \<and>
    validate_additional_metrics
      (k_pending_rape (basic p3)) (k_pending_pocso (basic p3))
      (k_disposed_rape (basic p3)) (k_disposed_pocso (basic p3))
      c1 c2 c3 c4 c5 c6 c7 c8 = Inl e4
      \<longrightarrow> insert_step3_additional_metrics db s court_name month year
            c1 c2 c3 c4 c5 c6 c7 c8
          = (Failure e4, s, [])"
    by (simp add: insert_step3_additional_metrics_def)
  from unchanged f1 f2 s2 f3 s3 f4 show ?thesis by (intro conjI)
qed

theorem failed_step_changes_nothing_witness:
  "tool_call db_empty store_after_step2
       (Step3 ''FTSC Attingal'' 1 2025 (Fin 5) (Fin 2) (Fin 3) (Fin 2) (Fin 6) (Fin 4)
          (Fin 2) (Fin 1))
     = (Failure (SubsetViolation Contested RAPE (Fin 5) (Fin 4)), store_after_step2, []) \<and>
   validation_or_order_failure (SubsetViolation Contested RAPE (Fin 5) (Fin 4)) \<and>
   insert_step1_basic_metrics db_empty store_after_step1 ''FTSC Attingal'' 13 2025
       (Fin 50) (Fin 30) (Fin 5) (Fin 3) (Fin 4) (Fin 2)
     = (Failure (RangeError Month 13), store_after_step1, []) \<and>
   insert_step1_basic_metrics db_empty store_after_step1 ''FTSC Attingal'' 1 2025
       (py_float 0) (py_float 0) (py_float (1 / 10)) (py_float (3 / 10))
       (py_float 0) (py_float (1 / 10))
     = (Failure InvariantViolation, store_after_step1, []) \<and>
   insert_step2_age_breakdowns db_empty Map.empty ''FTSC Attingal'' 1 2025
       (Fin 10) (Fin 5) (Fin 15) (Fin 10) (Fin 20) (Fin 12) (Fin 6) (Fin 4)
       (Fin 1) (Fin 1) (Fin 2) (Fin 1) (Fin 1) (Fin 0)
     = (Failure (StepOrderViolation 1), Map.empty, []) \<and>
   insert_step2_age_breakdowns db_empty store_after_step1 ''FTSC Attingal'' 1 2025
       (Fin 11) (Fin 5) (Fin 15) (Fin 10) (Fin 20) (Fin 12) (Fin 6) (Fin 4)
       (Fin 1) (Fin 1) (Fin 2) (Fin 1) (Fin 1) (Fin 0)
     = (Failure (SumMismatch RAPE Pendency (Fin 52) (Fin 51)), store_after_step1, []) \<and>
   (\<exists>n. insert_step3_additional_metrics db_empty store_after_step1 ''FTSC Attingal'' 1 2025
       (Fin 3) (Fin 2) (Fin 3) (Fin 2) (Fin 6) (Fin 4) (Fin 2) (Fin 1)
     = (Failure (StepOrderViolation n), store_after_step1, [])) \<and>
   insert_step3_additional_metrics db_empty store_after_step2 ''FTSC Attingal'' 1 2025
       (Fin 5) (Fin 2) (Fin 3) (Fin 2) (Fin 6) (Fin 4) (Fin 2) (Fin 1)
     = (Failure (SubsetViolation Contested RAPE (Fin 5) (Fin 4)), store_after_step2, [])"
proof -
  have court: "get_court_by_name db_empty ''FTSC Attingal'' = Inr (Some court_attingal)"
    by (simp add: db_empty_def courts_example_def)
  have new: "check_existing_data db_empty (k_id court_attingal) 1 2025 = Inr False"
    by (simp add: db_empty_def)
  have e1: "validate_month_year 13 2025 = Inl (RangeError Month 13)"
    by (simp add: validate_month_year_def)
  have ok: "validate_month_year 1 2025 = Inr True"
    by (simp add: validate_month_year_def)
  have e2: "validate_basic_metrics (py_float 0) (py_float 0) (py_float (1 / 10))
      (py_float (3 / 10)) (py_float 0) (py_float (1 / 10)) = Inl InvariantViolation"
    by (rule basic_metrics_rounding_example)
  have k1: "store_after_step1 (k_id court_attingal, 1, 2025) = Some partial_after_step1"
    by (simp add: store_after_step1_def court_attingal_def)
  have k2: "store_after_step2 (k_id court_attingal, 1, 2025) = Some partial_after_step2"
    by (simp add: store_after_step2_def court_attingal_def)
  have fl1: "k_step1_complete partial_after_step1" "\<not> k_step2_complete partial_after_step1"
    by (simp_all add: partial_after_step1_def)
  have fl2: "k_step2_complete partial_after_step2"
    by (simp add: partial_after_step2_def)
  have e3: "validate_age_breakdowns
      (k_pending_rape (basic partial_after_step1)) (k_pending_pocso (basic partial_after_step1))
      (k_disposed_rape (basic partial_after_step1)) (k_disposed_pocso (basic partial_after_step1))
      (Fin 11) (Fin 5) (Fin 15) (Fin 10) (Fin 20) (Fin 12) (Fin 6) (Fin 4)
      (Fin 1) (Fin 1) (Fin 2) (Fin 1) (Fin 1) (Fin 0)
      = Inl (SumMismatch RAPE Pendency (Fin 52) (Fin 51))"
    by (simp add: validate_age_breakdowns_def Let_def fne_def partial_after_step1_def
        basic_example_def)
  have e4: "validate_additional_metrics
      (k_pending_rape (basic partial_after_step2)) (k_pending_pocso (basic partial_after_step2))
      (k_disposed_rape (basic partial_after_step2)) (k_disposed_pocso (basic partial_after_step2))
      (Fin 5) (Fin 2) (Fin 3) (Fin 2) (Fin 6) (Fin 4) (Fin 2) (Fin 1)
      = Inl (SubsetViolation Contested RAPE (Fin 5) (Fin 4))"
    by (simp add: validate_additional_metrics_def partial_after_step2_def basic_example_def)
  note at1 = failed_step_changes_nothing [where db = db_empty and s = store_after_step1
      and court_name = "''FTSC Attingal''" and court = court_attingal and year = 2025]
  note at2 = failed_step_changes_nothing [where db = db_empty and s = store_after_step2
      and court_name = "''FTSC Attingal''" and court = court_attingal and year = 2025
      and month = 1]
  note at0 = failed_step_changes_nothing [where db = db_empty and s = Map.empty
      and court_name = "''FTSC Attingal''" and court = court_attingal and year = 2025
      and month = 1]
  note c2 = at1 [THEN conjunct2, THEN conjunct1, rule_format, OF e1]
  note c3 = at1 [THEN conjunct2, THEN conjunct2, THEN conjunct1,
      rule_format, OF conjI [OF ok conjI [OF court conjI [OF new e2]]]]
  note c4 = at0 [THEN conjunct2, THEN conjunct2, THEN conjunct2,
      THEN conjunct1, rule_format, OF conjI [OF court disjI1]]
  note c5 = at1 [THEN conjunct2, THEN conjunct2, THEN conjunct2,
      THEN conjunct2, THEN conjunct1, rule_format,
      OF conjI [OF court conjI [OF k1 conjI [OF fl1(1) e3]]]]
  have unset: "\<exists>p. store_after_step1 (k_id court_attingal, 1, 2025) = Some p \<and>
      \<not> k_step2_complete p"
    using k1 fl1(2) by blast
  note c6 = at1 [where month = 1, THEN conjunct2, THEN conjunct2, THEN conjunct2,
      THEN conjunct2, THEN conjunct2, THEN conjunct1, rule_format,
      OF conjI [OF court disjI2 [OF unset]]]
  note c7 = at2 [THEN conjunct2, THEN conjunct2, THEN conjunct2,
      THEN conjunct2, THEN conjunct2, THEN conjunct2, rule_format,
      OF conjI [OF court conjI [OF k2 conjI [OF fl2 e4]]]]
  have call: "tool_call db_empty store_after_step2
       (Step3 ''FTSC Attingal'' 1 2025 (Fin 5) (Fin 2) (Fin 3) (Fin 2) (Fin 6) (Fin 4)
          (Fin 2) (Fin 1))
     = (Failure (SubsetViolation Contested RAPE (Fin 5) (Fin 4)), store_after_step2, [])"
    using c7 by simp
  note c1 = at2 [THEN conjunct1, rule_format, OF conjI [OF call]]
  have c4': "insert_step2_age_breakdowns db_empty Map.empty ''FTSC Attingal'' 1 2025
       (Fin 10) (Fin 5) (Fin 15) (Fin 10) (Fin 20) (Fin 12) (Fin 6) (Fin 4)
       (Fin 1) (Fin 1) (Fin 2) (Fin 1) (Fin 1) (Fin 0)
     = (Failure (StepOrderViolation 1), Map.empty, [])"
    by (rule c4) simp
  from c1 have "validation_or_order_failure (SubsetViolation Contested RAPE (Fin 5) (Fin 4))"
    by simp
  with call c2 c3 c4' c5 c6 c7 show ?thesis by (intro conjI)

qed

text \<open>
  Claim C6. When the \<^verbatim>\<open>INSERT\<close> of step 3 raises, the call returns the failure and the
  store is unchanged: the entry of the key is still there with \<^verbatim>\<open>step1_complete\<close> and
  \<^verbatim>\<open>step2_complete\<close> set, so step 3, called again with the same arguments, commits as
  soon as the \<^verbatim>\<open>INSERT\<close> succeeds, with no step 1 or 2 in between. When the \<^verbatim>\<open>INSERT\<close>
  succeeds the entry is removed. The entry is removed exactly when the row is committed.
\<close>

theorem storage_failure_keeps_partial_record:
  assumes "reachable s"
    and "get_court_by_name db court_name = Inr (Some court)"
    and "s (k_id court, month, year) = Some p"
    and "k_step2_complete p"
    and "validate_additional_metrics
           (k_pending_rape (basic p)) (k_pending_pocso (basic p))
           (k_disposed_rape (basic p)) (k_disposed_pocso (basic p))
           c1 c2 c3 c4 c5 c6 c7 c8 = Inr additional"
  shows
    "\<exists>a. age p = Some a \<and> k_step1_complete p \<and> k_step2_complete p \<and>
       (\<forall>msg. execute_insert db (k_id court) month year
                \<lparr>row_basic = basic p, row_age = a, row_additional = additional\<rparr> = Inl msg
          \<longrightarrow> insert_step3_additional_metrics db s court_name month year
                c1 c2 c3 c4 c5 c6 c7 c8
              = (Failure (StorageFailure msg), s,
                 [(k_id court, month, year,
                   \<lparr>row_basic = basic p, row_age = a, row_additional = additional\<rparr>)])) \<and>
       (\<forall>db'. get_court_by_name db' court_name = Inr (Some court) \<and>
              execute_insert db' (k_id court) month year
                \<lparr>row_basic = basic p, row_age = a, row_additional = additional\<rparr> = Inr ()
          \<longrightarrow> insert_step3_additional_metrics db' s court_name month year
                c1 c2 c3 c4 c5 c6 c7 c8
              = (Data_entry_complete p additional,
                 s((k_id court, month, year) := None),
                 [(k_id court, month, year,
                   \<lparr>row_basic = basic p, row_age = a, row_additional = additional\<rparr>)]))"
proof -
  from reachable_entry [OF assms(1) assms(3)] assms(4)
  obtain a where a: "age p = Some a" and one: "k_step1_complete p" by auto
  have fails: "insert_step3_additional_metrics db s court_name month year
        c1 c2 c3 c4 c5 c6 c7 c8
      = (Failure (StorageFailure msg), s,
         [(k_id court, month, year,
           \<lparr>row_basic = basic p, row_age = a, row_additional = additional\<rparr>)])"
    if "execute_insert db (k_id court) month year
          \<lparr>row_basic = basic p, row_age = a, row_additional = additional\<rparr> = Inl msg"
    for msg
    using assms(2-5) a that
    by (simp add: insert_step3_additional_metrics_def insert_court_monthly_data_def)
  have commits: "insert_step3_additional_metrics db' s court_name month year
        c1 c2 c3 c4 c5 c6 c7 c8
      = (Data_entry_complete p additional, s((k_id court, month, year) := None),
         [(k_id court, month, year,
           \<lparr>row_basic = basic p, row_age = a, row_additional = additional\<rparr>)])"
    if "get_court_by_name db' court_name = Inr (Some court)"
      and "execute_insert db' (k_id court) month year
          \<lparr>row_basic = basic p, row_age = a, row_additional = additional\<rparr> = Inr ()"
    for db'
    using assms(3-5) a that
    by (simp add: insert_step3_additional_metrics_def insert_court_monthly_data_def)
  from a one assms(4) fails commits show ?thesis by blast
qed

theorem storage_failure_keeps_partial_record_witness:
  "reachable store_after_step2 \<and>
   store_after_step2 (1, 1, 2025) = Some partial_after_step2 \<and>
   k_step1_complete partial_after_step2 \<and> k_step2_complete partial_after_step2 \<and>
   execute_insert db_failing 1 1 2025 row_example = Inl ''connection is closed'' \<and>
   insert_step3_additional_metrics db_failing store_after_step2 ''FTSC Attingal'' 1 2025
       (Fin 3) (Fin 2) (Fin 3) (Fin 2) (Fin 6) (Fin 4) (Fin 2) (Fin 1)
     = (Failure (StorageFailure ''connection is closed''), store_after_step2,
        [(1, 1, 2025, row_example)]) \<and>
   execute_insert db_empty 1 1 2025 row_example = Inr () \<and>
   insert_step3_additional_metrics db_empty store_after_step2 ''FTSC Attingal'' 1 2025
       (Fin 3) (Fin 2) (Fin 3) (Fin 2) (Fin 6) (Fin 4) (Fin 2) (Fin 1)
     = (Data_entry_complete partial_after_step2 additional_example,
        store_after_step2((1, 1, 2025) := None), [(1, 1, 2025, row_example)])"
proof -
  have court: "get_court_by_name db_failing ''FTSC Attingal'' = Inr (Some court_attingal)"
    by (simp add: db_failing_def courts_example_def)
  have court': "get_court_by_name db_empty ''FTSC Attingal'' = Inr (Some court_attingal)"
    by (simp add: db_empty_def courts_example_def)
  have k2: "store_after_step2 (k_id court_attingal, 1, 2025) = Some partial_after_step2"
    by (simp add: store_after_step2_def court_attingal_def)
  have fl2: "k_step2_complete partial_after_step2"
    by (simp add: partial_after_step2_def)
  have v: "validate_additional_metrics
      (k_pending_rape (basic partial_after_step2)) (k_pending_pocso (basic partial_after_step2))
      (k_disposed_rape (basic partial_after_step2)) (k_disposed_pocso (basic partial_after_step2))
      (Fin 3) (Fin 2) (Fin 3) (Fin 2) (Fin 6) (Fin 4) (Fin 2) (Fin 1)
      = Inr additional_example"
    by (simp add: validate_additional_metrics_def partial_after_step2_def basic_example_def
        additional_example_def)
  have bad: "execute_insert db_failing 1 1 2025 row_example = Inl ''connection is closed''"
    by (simp add: db_failing_def)
  have good: "execute_insert db_empty 1 1 2025 row_example = Inr ()"
    by (simp add: db_empty_def)
  have row: "\<lparr>row_basic = basic partial_after_step2, row_age = age_example,
      row_additional = additional_example\<rparr> = row_example"
    by (simp add: row_example_def partial_after_step2_def)
  from storage_failure_keeps_partial_record [OF reachable_after_step2 court k2 fl2 v]
  obtain a where a: "age partial_after_step2 = Some a"
    and flags: "k_step1_complete partial_after_step2" "k_step2_complete partial_after_step2"
    and fails: "\<And>msg. execute_insert db_failing (k_id court_attingal) 1 2025
          \<lparr>row_basic = basic partial_after_step2, row_age = a,
           row_additional = additional_example\<rparr> = Inl msg
        \<Longrightarrow> insert_step3_additional_metrics db_failing store_after_step2 ''FTSC Attingal'' 1 2025
              (Fin 3) (Fin 2) (Fin 3) (Fin 2) (Fin 6) (Fin 4) (Fin 2) (Fin 1)
            = (Failure (StorageFailure msg), store_after_step2,
               [(k_id court_attingal, 1, 2025,
                 \<lparr>row_basic = basic partial_after_step2, row_age = a,
                  row_additional = additional_example\<rparr>)])"
    and commits: "\<And>db'. get_court_by_name db' ''FTSC Attingal'' = Inr (Some court_attingal) \<Longrightarrow>
          execute_insert db' (k_id court_attingal) 1 2025
            \<lparr>row_basic = basic partial_after_step2, row_age = a,
             row_additional = additional_example\<rparr> = Inr ()
        \<Longrightarrow> insert_step3_additional_metrics db' store_after_step2 ''FTSC Attingal'' 1 2025
              (Fin 3) (Fin 2) (Fin 3) (Fin 2) (Fin 6) (Fin 4) (Fin 2) (Fin 1)
            = (Data_entry_complete partial_after_step2 additional_example,
               store_after_step2((k_id court_attingal, 1, 2025) := None),
               [(k_id court_attingal, 1, 2025,
                 \<lparr>row_basic = basic partial_after_step2, row_age = a,
                  row_additional = additional_example\<rparr>)])"
    by blast
  from a have a': "a = age_example" by (simp add: partial_after_step2_def)
  have id: "k_id court_attingal = 1" by (simp add: court_attingal_def)
  note fails' = fails [unfolded a' row id, OF bad]
  note commits' = commits [unfolded a' row id, OF court' good]
  from reachable_after_step2 k2 [unfolded id] flags bad fails' good commits'
  show ?thesis by (intro conjI)
qed

text \<open>
  Claim C7 says that step 1, called for a key whose data are already committed, fails with
  \<open>DuplicateEntry\<close> and leaves no entry for the key in the store, whatever the store was
  before. The failure is as claimed, but the call does not touch the store: an entry that
  an earlier step 1 has left for the key is still there afterwards. Here the store holds
  the entry of the example after its step 1, and the database answers that the data exist
  (they were committed by another writer, or by an \<^verbatim>\<open>INSERT\<close> that raised after it took
  effect).
\<close>

theorem duplicate_entry_counterexample:
  "reachable store_after_step1 \<and>
   check_existing_data db_committed 1 1 2025 = Inr True \<and>
   store_after_step1 (1, 1, 2025) = Some partial_after_step1 \<and>
   insert_step1_basic_metrics db_committed store_after_step1 ''FTSC Attingal'' 1 2025
       (Fin 50) (Fin 30) (Fin 5) (Fin 3) (Fin 4) (Fin 2)
     = (Failure (DuplicateEntry ''FTSC Attingal'' 1 2025), store_after_step1, [])"
  using reachable_after_step1
  by (simp add: insert_step1_basic_metrics_def validate_month_year_def db_committed_def
      courts_example_def court_attingal_def store_after_step1_def)

text \<open>
  Claim C7, amended. For every key (a court the database knows, a month and a year that
  \<^verbatim>\<open>validate_month_year\<close> accepts) whose data are already committed, step 1 fails with
  \<open>DuplicateEntry\<close>, sends nothing and leaves the store as it was, whatever it was: it
  creates no entry, so the store has none for the key afterwards if it had none before.
\<close>

theorem duplicate_entry_leaves_store:
  assumes "validate_month_year month year = Inr ok"
    and "get_court_by_name db court_name = Inr (Some court)"
    and "check_existing_data db (k_id court) month year = Inr True"
  shows
    "insert_step1_basic_metrics db s court_name month year b1 b2 b3 b4 b5 b6
       = (Failure (DuplicateEntry court_name month year), s, []) \<and>
     (s (k_id court, month, year) = None \<longrightarrow>
        fst (snd (insert_step1_basic_metrics db s court_name month year b1 b2 b3 b4 b5 b6))
          (k_id court, month, year) = None)"
  using assms by (simp add: insert_step1_basic_metrics_def)

theorem duplicate_entry_leaves_store_witness:
  "validate_month_year 1 2025 = Inr True \<and>
   get_court_by_name db_committed ''FTSC Attingal'' = Inr (Some court_attingal) \<and>
   check_existing_data db_committed (k_id court_attingal) 1 2025 = Inr True \<and>
   Map.empty (k_id court_attingal, 1::int, 2025::int) = (None :: partial_data option) \<and>
   insert_step1_basic_metrics db_committed Map.empty ''FTSC Attingal'' 1 2025
       (Fin 50) (Fin 30) (Fin 5) (Fin 3) (Fin 4) (Fin 2)
     = (Failure (DuplicateEntry ''FTSC Attingal'' 1 2025), Map.empty, []) \<and>
   fst (snd (insert_step1_basic_metrics db_committed Map.empty ''FTSC Attingal'' 1 2025
       (Fin 50) (Fin 30) (Fin 5) (Fin 3) (Fin 4) (Fin 2)))
     (k_id court_attingal, 1, 2025) = None"
proof -
  have ok: "validate_month_year 1 2025 = Inr True"
    by (simp add: validate_month_year_def)
  have court: "get_court_by_name db_committed ''FTSC Attingal'' = Inr (Some court_attingal)"
    by (simp add: db_committed_def courts_example_def)
  have ex: "check_existing_data db_committed (k_id court_attingal) 1 2025 = Inr True"
    by (simp add: db_committed_def)
  have none: "Map.empty (k_id court_attingal, 1::int, 2025::int) = (None :: partial_data option)"
    by simp
  from duplicate_entry_leaves_store [OF ok court ex, where s = Map.empty and ?b1.0 = "Fin 50"
      and ?b2.0 = "Fin 30" and ?b3.0 = "Fin 5" and ?b4.0 = "Fin 3" and ?b5.0 = "Fin 4"
      and ?b6.0 = "Fin 2"] none ok court ex
  show ?thesis by blast
qed

text \<open>
  Claim C8 says that the check of the pending total in \<^verbatim>\<open>validate_basic_metrics\<close> can
  never fail, because the total of the pending counts equals total balance + total new -
  total disposed by construction. In exact arithmetic it does; the code compares two
  float sums whose additions are grouped differently and rounded one by one. For
  \<^verbatim>\<open>new_rape = 0.1\<close>, \<^verbatim>\<open>new_pocso = 0.2\<close>, \<^verbatim>\<open>disposed_rape = 0.1\<close> and the rest \<^verbatim>\<open>0.0\<close>, the
  pending total is \<^verbatim>\<open>(0.1 - 0.1) + 0.2 = 0.2\<close>, the other side is
  \<^verbatim>\<open>(0.0 + (0.1 + 0.2)) - 0.1 = 0.20000000000000004\<close>, and the branch is taken.
\<close>

theorem self_check_fails_on_fractional_counts:
  "validate_basic_metrics (py_float 0) (py_float 0) (py_float (1 / 10)) (py_float (2 / 10))
     (py_float (1 / 10)) (py_float 0)
   = Inl InvariantViolation"
  by code_simp

text \<open>
  The same happens on whole numbers once a sum needs more than 53 bits: for a balance of
  \<open>2\<^sup>5\<^sup>3\<close> and \<open>1\<close> and one new case, the pending total is \<open>2\<^sup>5\<^sup>3 + 2\<close> and the other side
  is \<open>2\<^sup>5\<^sup>3\<close>.
\<close>

lemma self_check_fails_on_large_whole_numbers:
  "validate_basic_metrics (Fin (2 ^ 53)) (Fin 1) (Fin 0) (Fin 1) (Fin 0) (Fin 0)
   = Inl InvariantViolation"
  by code_simp

text \<open>
  Claim C9 says that \<^verbatim>\<open>validate_basic_metrics\<close> has no condition on the sign of the pending
  counts: whenever disposed exceeds balance + new in a category of non-negative inputs, it
  succeeds and returns a negative pending count. There is no such condition in the code,
  and on whole numbers a negative pending count is returned
  (\<open>validate_basic_metrics_whole_numbers\<close>); but the call does not always succeed. For
  \<^verbatim>\<open>new_pocso = 0.1\<close>, \<^verbatim>\<open>disposed_rape = 0.1\<close>, \<^verbatim>\<open>disposed_pocso = 0.2\<close> and the rest \<^verbatim>\<open>0.0\<close>,
  disposed exceeds balance + new in both categories, the pending counts are \<^verbatim>\<open>-0.1\<close> and
  \<^verbatim>\<open>-0.1\<close>, their total \<^verbatim>\<open>-0.2\<close> is compared with
  \<^verbatim>\<open>(0.0 + 0.1) - (0.1 + 0.2) = -0.20000000000000004\<close>, and the function raises.
\<close>

theorem negative_pending_rejected_on_fractional_counts:
  "fgt (py_float (1 / 10)) (fadd (py_float 0) (py_float 0)) \<and>
   fgt (py_float (2 / 10)) (fadd (py_float 0) (py_float (1 / 10))) \<and>
   validate_basic_metrics (py_float 0) (py_float 0) (py_float 0) (py_float (1 / 10))
     (py_float (1 / 10)) (py_float (2 / 10))
   = Inl InvariantViolation"
  by code_simp

text \<open>
  Claim C10. Only step 1 checks the period. Steps 2 and 3 never fail with \<open>RangeError\<close>.
  For a month outside 1..12 or a year outside 2020..2030, step 1 fails with
  \<open>RangeError\<close>; hence no reachable store has an entry for such a period, and steps 2
  and 3, called for it with a court the database knows, fail for that reason alone: the
  step-order failure of a missing entry.
\<close>

theorem period_checked_only_by_step1:
  "insert_step2_age_breakdowns db s court_name month year
       a1 a2 a3 a4 a5 a6 a7 a8 a9 a10 a11 a12 a13 a14 \<noteq> (Failure (RangeError f v), s', sent) \<and>
   insert_step3_additional_metrics db s court_name month year
       c1 c2 c3 c4 c5 c6 c7 c8 \<noteq> (Failure (RangeError f v), s', sent) \<and>
   (\<not> (1 \<le> month \<and> month \<le> 12 \<and> 2020 \<le> year \<and> year \<le> 2030) \<longrightarrow>
      (\<exists>f' v'. insert_step1_basic_metrics db s court_name month year b1 b2 b3 b4 b5 b6
          = (Failure (RangeError f' v'), s, []))) \<and>
   (reachable s \<and> \<not> (1 \<le> month \<and> month \<le> 12 \<and> 2020 \<le> year \<and> year \<le> 2030) \<longrightarrow>
      s (court_id, month, year) = None \<and>
      (get_court_by_name db court_name = Inr (Some court) \<longrightarrow>
         insert_step2_age_breakdowns db s court_name month year
             a1 a2 a3 a4 a5 a6 a7 a8 a9 a10 a11 a12 a13 a14
           = (Failure (StepOrderViolation 1), s, []) \<and>
         insert_step3_additional_metrics db s court_name month year
             c1 c2 c3 c4 c5 c6 c7 c8
           = (Failure (StepOrderViolation 1), s, [])))"
proof -
  have no2: "insert_step2_age_breakdowns db s court_name month year
       a1 a2 a3 a4 a5 a6 a7 a8 a9 a10 a11 a12 a13 a14 \<noteq> (Failure (RangeError f v), s', sent)"
    by (auto simp: insert_step2_age_breakdowns_def validate_age_breakdowns_def Let_def
        split: sum.splits option.splits if_splits)
  have no3: "insert_step3_additional_metrics db s court_name month year
       c1 c2 c3 c4 c5 c6 c7 c8 \<noteq> (Failure (RangeError f v), s', sent)"
    by (auto simp: insert_step3_additional_metrics_def validate_additional_metrics_def
        insert_court_monthly_data_def Let_def
        split: sum.splits option.splits if_splits prod.splits)
  have one: "\<exists>f' v'. insert_step1_basic_metrics db s court_name month year b1 b2 b3 b4 b5 b6
          = (Failure (RangeError f' v'), s, [])"
    if "\<not> (1 \<le> month \<and> month \<le> 12 \<and> 2020 \<le> year \<and> year \<le> 2030)"
    using that by (auto simp: insert_step1_basic_metrics_def validate_month_year_def)
  have absent: "s (cid, month, year) = None"
    if "reachable s" "\<not> (1 \<le> month \<and> month \<le> 12 \<and> 2020 \<le> year \<and> year \<le> 2030)" for cid
  proof (cases "s (cid, month, year)")
    case None
    then show ?thesis .
  next
    case (Some p)
    from reachable_entry [OF that(1) Some] that(2) show ?thesis by simp
  qed
  have later: "insert_step2_age_breakdowns db s court_name month year
             a1 a2 a3 a4 a5 a6 a7 a8 a9 a10 a11 a12 a13 a14
           = (Failure (StepOrderViolation 1), s, []) \<and>
         insert_step3_additional_metrics db s court_name month year
             c1 c2 c3 c4 c5 c6 c7 c8
           = (Failure (StepOrderViolation 1), s, [])"
    if "reachable s" "\<not> (1 \<le> month \<and> month \<le> 12 \<and> 2020 \<le> year \<and> year \<le> 2030)"
      "get_court_by_name db court_name = Inr (Some court)"
    using absent [OF that(1,2), of "k_id court"] that(3)
    by (simp add: insert_step2_age_breakdowns_def insert_step3_additional_metrics_def)
  from no2 no3 one absent later show ?thesis by blast
qed

theorem period_checked_only_by_step1_witness:
  "reachable store_after_step2 \<and> \<not> (1 \<le> (13::int) \<and> (13::int) \<le> 12 \<and> 2020 \<le> (2025::int) \<and> (2025::int) \<le> 2030) \<and>
   get_court_by_name db_empty ''FTSC Attingal'' = Inr (Some court_attingal) \<and>
   (\<exists>f' v'. insert_step1_basic_metrics db_empty store_after_step2 ''FTSC Attingal'' 13 2025
       (Fin 50) (Fin 30) (Fin 5) (Fin 3) (Fin 4) (Fin 2)
     = (Failure (RangeError f' v'), store_after_step2, [])) \<and>
   store_after_step2 (1, 13, 2025) = None \<and>
   insert_step2_age_breakdowns db_empty store_after_step2 ''FTSC Attingal'' 13 2025
       (Fin 10) (Fin 5) (Fin 15) (Fin 10) (Fin 20) (Fin 12) (Fin 6) (Fin 4)
       (Fin 1) (Fin 1) (Fin 2) (Fin 1) (Fin 1) (Fin 0)
     = (Failure (StepOrderViolation 1), store_after_step2, []) \<and>
   insert_step3_additional_metrics db_empty store_after_step2 ''FTSC Attingal'' 13 2025
       (Fin 3) (Fin 2) (Fin 3) (Fin 2) (Fin 6) (Fin 4) (Fin 2) (Fin 1)
     = (Failure (StepOrderViolation 1), store_after_step2, [])"
proof -
  have court: "get_court_by_name db_empty ''FTSC Attingal'' = Inr (Some court_attingal)"
    by (simp add: db_empty_def courts_example_def)
  have out: "\<not> (1 \<le> (13::int) \<and> (13::int) \<le> 12 \<and> 2020 \<le> (2025::int) \<and> (2025::int) \<le> 2030)"
    by simp
  note inst = period_checked_only_by_step1 [where db = db_empty and s = store_after_step2
      and court_name = "''FTSC Attingal''" and month = 13 and year = 2025
      and court = court_attingal and court_id = 1
      and ?b1.0 = "Fin 50" and ?b2.0 = "Fin 30" and ?b3.0 = "Fin 5" and ?b4.0 = "Fin 3"
      and ?b5.0 = "Fin 4" and ?b6.0 = "Fin 2"
      and ?a1.0 = "Fin 10" and ?a2.0 = "Fin 5" and ?a3.0 = "Fin 15" and ?a4.0 = "Fin 10"
      and ?a5.0 = "Fin 20" and ?a6.0 = "Fin 12" and ?a7.0 = "Fin 6" and ?a8.0 = "Fin 4"
      and ?a9.0 = "Fin 1" and ?a10.0 = "Fin 1" and ?a11.0 = "Fin 2" and ?a12.0 = "Fin 1"
      and ?a13.0 = "Fin 1" and ?a14.0 = "Fin 0"
      and ?c1.0 = "Fin 3" and ?c2.0 = "Fin 2" and ?c3.0 = "Fin 3" and ?c4.0 = "Fin 2"
      and ?c5.0 = "Fin 6" and ?c6.0 = "Fin 4" and ?c7.0 = "Fin 2" and ?c8.0 = "Fin 1"]
  from inst [THEN conjunct2, THEN conjunct2] reachable_after_step2 out court
  show ?thesis by blast
qed

end
